theory Spec2Isabelle
  imports Complex_Main "HOL-Library.Word"
begin

section \<open>Numeric types\<close>

text \<open>
  The C++ types \<^verbatim>\<open>float\<close> and \<^verbatim>\<open>double\<close> are embedded as \<^typ>\<open>real\<close>: every
  arithmetic operation is the exact one, there is no rounding, no infinity and no NaN.
  The type \<^verbatim>\<open>unsigned\<close> is a 32-bit word, whose \<open>+\<close>, \<open>-\<close> and \<open>*\<close> wrap around and
  whose order and \<open>div\<close> are the unsigned ones. The conversion of an \<^verbatim>\<open>unsigned\<close> to
  \<^verbatim>\<open>float\<close> is \<open>real (unat x)\<close>.
\<close>

type_synonym u32 = "32 word"

definition to_float :: "u32 \<Rightarrow> real" where
  "to_float x = real (unat x)"

section \<open>The matrix library (common/string\_util.cpp)\<close>

text \<open>
  A \<^verbatim>\<open>mat4_t\<close> is a pointer to 16 doubles; its value is the list of the 16 elements.
  Each function below returns the content of \<^verbatim>\<open>dest\<close> after the call. The functions
  that can fail return \<^verbatim>\<open>NULL\<close> and leave \<^verbatim>\<open>dest\<close> as it was: that is \<open>None\<close>.
\<close>

type_synonym mat4_t = "real list"

text \<open>\<^verbatim>\<open>mat4_inverse\<close>, lines 204 to 245. All elements of \<^verbatim>\<open>mat\<close> are read into
  locals before \<^verbatim>\<open>dest\<close> is written; \<^verbatim>\<open>!d\<close> on a double is \<open>d = 0\<close>.\<close>

definition mat4_inverse :: "mat4_t \<Rightarrow> mat4_t option" where
  "mat4_inverse mat =
    (let a00 = mat ! 0; a01 = mat ! 1; a02 = mat ! 2; a03 = mat ! 3;
         a10 = mat ! 4; a11 = mat ! 5; a12 = mat ! 6; a13 = mat ! 7;
         a20 = mat ! 8; a21 = mat ! 9; a22 = mat ! 10; a23 = mat ! 11;
         a30 = mat ! 12; a31 = mat ! 13; a32 = mat ! 14; a33 = mat ! 15;
         b00 = a00 * a11 - a01 * a10; b01 = a00 * a12 - a02 * a10;
         b02 = a00 * a13 - a03 * a10; b03 = a01 * a12 - a02 * a11;
         b04 = a01 * a13 - a03 * a11; b05 = a02 * a13 - a03 * a12;
         b06 = a20 * a31 - a21 * a30; b07 = a20 * a32 - a22 * a30;
         b08 = a20 * a33 - a23 * a30; b09 = a21 * a32 - a22 * a31;
         b10 = a21 * a33 - a23 * a31; b11 = a22 * a33 - a23 * a32;
         d = b00 * b11 - b01 * b10 + b02 * b09 + b03 * b08 - b04 * b07 + b05 * b06
     in if d = 0 then None
        else let invDet = 1 / d in
          Some [(a11 * b11 - a12 * b10 + a13 * b09) * invDet,
                (- a01 * b11 + a02 * b10 - a03 * b09) * invDet,
                (a31 * b05 - a32 * b04 + a33 * b03) * invDet,
                (- a21 * b05 + a22 * b04 - a23 * b03) * invDet,
                (- a10 * b11 + a12 * b08 - a13 * b07) * invDet,
                (a00 * b11 - a02 * b08 + a03 * b07) * invDet,
                (- a30 * b05 + a32 * b02 - a33 * b01) * invDet,
                (a20 * b05 - a22 * b02 + a23 * b01) * invDet,
                (a10 * b10 - a11 * b08 + a13 * b06) * invDet,
                (- a00 * b10 + a01 * b08 - a03 * b06) * invDet,
                (a30 * b04 - a31 * b02 + a33 * b00) * invDet,
                (- a20 * b04 + a21 * b02 - a23 * b00) * invDet,
                (- a10 * b09 + a11 * b07 - a12 * b06) * invDet,
                (a00 * b09 - a01 * b07 + a02 * b06) * invDet,
                (- a30 * b03 + a31 * b01 - a32 * b00) * invDet,
                (a20 * b03 - a21 * b01 + a22 * b00) * invDet])"

text \<open>\<^verbatim>\<open>mat4_translate\<close>, lines 247 to 290. The flag \<open>in_place\<close> is the test
  \<^verbatim>\<open>!dest || mat == dest\<close>. In place, the four writes happen one after the other on
  \<^verbatim>\<open>mat\<close> itself; otherwise twelve elements are copied and four computed.\<close>

definition mat4_translate :: "bool \<Rightarrow> mat4_t \<Rightarrow> real list \<Rightarrow> mat4_t" where
  "mat4_translate in_place mat v =
    (let x = v ! 0; y = v ! 1; z = v ! 2 in
     if in_place then
       (let m1 = mat[12 := mat ! 0 * x + mat ! 4 * y + mat ! 8 * z + mat ! 12];
            m2 = m1[13 := m1 ! 1 * x + m1 ! 5 * y + m1 ! 9 * z + m1 ! 13];
            m3 = m2[14 := m2 ! 2 * x + m2 ! 6 * y + m2 ! 10 * z + m2 ! 14];
            m4 = m3[15 := m3 ! 3 * x + m3 ! 7 * y + m3 ! 11 * z + m3 ! 15]
        in m4)
     else
       (let a00 = mat ! 0; a01 = mat ! 1; a02 = mat ! 2; a03 = mat ! 3;
            a10 = mat ! 4; a11 = mat ! 5; a12 = mat ! 6; a13 = mat ! 7;
            a20 = mat ! 8; a21 = mat ! 9; a22 = mat ! 10; a23 = mat ! 11
        in [a00, a01, a02, a03, a10, a11, a12, a13, a20, a21, a22, a23,
            a00 * x + a10 * y + a20 * z + mat ! 12,
            a01 * x + a11 * y + a21 * z + mat ! 13,
            a02 * x + a12 * y + a22 * z + mat ! 14,
            a03 * x + a13 * y + a23 * z + mat ! 15]))"

text \<open>\<^verbatim>\<open>mat4_rotate\<close>, lines 292 to 360. Elements 12 to 15 of the result are those of
  \<^verbatim>\<open>mat\<close>: copied when \<^verbatim>\<open>dest\<close> is another buffer, left alone when it is \<^verbatim>\<open>mat\<close>.\<close>

definition mat4_rotate :: "mat4_t \<Rightarrow> real \<Rightarrow> real list \<Rightarrow> mat4_t option" where
  "mat4_rotate mat angle v =
    (let x = v ! 0; y = v ! 1; z = v ! 2;
         len = sqrt (x * x + y * y + z * z)
     in if len = 0 then None
        else
         (let (x, y, z) = (if len \<noteq> 1 then (x * (1 / len), y * (1 / len), z * (1 / len))
                           else (x, y, z));
              s = sin angle; c = cos angle; t = 1 - c;
              a00 = mat ! 0; a01 = mat ! 1; a02 = mat ! 2; a03 = mat ! 3;
              a10 = mat ! 4; a11 = mat ! 5; a12 = mat ! 6; a13 = mat ! 7;
              a20 = mat ! 8; a21 = mat ! 9; a22 = mat ! 10; a23 = mat ! 11;
              b00 = x * x * t + c; b01 = y * x * t + z * s; b02 = z * x * t - y * s;
              b10 = x * y * t - z * s; b11 = y * y * t + c; b12 = z * y * t + x * s;
              b20 = x * z * t + y * s; b21 = y * z * t - x * s; b22 = z * z * t + c
          in Some [a00 * b00 + a10 * b01 + a20 * b02,
                   a01 * b00 + a11 * b01 + a21 * b02,
                   a02 * b00 + a12 * b01 + a22 * b02,
                   a03 * b00 + a13 * b01 + a23 * b02,
                   a00 * b10 + a10 * b11 + a20 * b12,
                   a01 * b10 + a11 * b11 + a21 * b12,
                   a02 * b10 + a12 * b11 + a22 * b12,
                   a03 * b10 + a13 * b11 + a23 * b12,
                   a00 * b20 + a10 * b21 + a20 * b22,
                   a01 * b20 + a11 * b21 + a21 * b22,
                   a02 * b20 + a12 * b21 + a22 * b22,
                   a03 * b20 + a13 * b21 + a23 * b22,
                   mat ! 12, mat ! 13, mat ! 14, mat ! 15]))"

text \<open>\<^verbatim>\<open>mat4_multiply\<close>, lines 362 to 394.\<close>

definition mat4_multiply :: "mat4_t \<Rightarrow> mat4_t \<Rightarrow> mat4_t" where
  "mat4_multiply mat mat2 =
    (let a00 = mat ! 0; a01 = mat ! 1; a02 = mat ! 2; a03 = mat ! 3;
         a10 = mat ! 4; a11 = mat ! 5; a12 = mat ! 6; a13 = mat ! 7;
         a20 = mat ! 8; a21 = mat ! 9; a22 = mat ! 10; a23 = mat ! 11;
         a30 = mat ! 12; a31 = mat ! 13; a32 = mat ! 14; a33 = mat ! 15;
         b00 = mat2 ! 0; b01 = mat2 ! 1; b02 = mat2 ! 2; b03 = mat2 ! 3;
         b10 = mat2 ! 4; b11 = mat2 ! 5; b12 = mat2 ! 6; b13 = mat2 ! 7;
         b20 = mat2 ! 8; b21 = mat2 ! 9; b22 = mat2 ! 10; b23 = mat2 ! 11;
         b30 = mat2 ! 12; b31 = mat2 ! 13; b32 = mat2 ! 14; b33 = mat2 ! 15
     in [b00 * a00 + b01 * a10 + b02 * a20 + b03 * a30,
         b00 * a01 + b01 * a11 + b02 * a21 + b03 * a31,
         b00 * a02 + b01 * a12 + b02 * a22 + b03 * a32,
         b00 * a03 + b01 * a13 + b02 * a23 + b03 * a33,
         b10 * a00 + b11 * a10 + b12 * a20 + b13 * a30,
         b10 * a01 + b11 * a11 + b12 * a21 + b13 * a31,
         b10 * a02 + b11 * a12 + b12 * a22 + b13 * a32,
         b10 * a03 + b11 * a13 + b12 * a23 + b13 * a33,
         b20 * a00 + b21 * a10 + b22 * a20 + b23 * a30,
         b20 * a01 + b21 * a11 + b22 * a21 + b23 * a31,
         b20 * a02 + b21 * a12 + b22 * a22 + b23 * a32,
         b20 * a03 + b21 * a13 + b22 * a23 + b23 * a33,
         b30 * a00 + b31 * a10 + b32 * a20 + b33 * a30,
         b30 * a01 + b31 * a11 + b32 * a21 + b33 * a31,
         b30 * a02 + b31 * a12 + b32 * a22 + b33 * a32,
         b30 * a03 + b31 * a13 + b32 * a23 + b33 * a33])"

text \<open>\<^verbatim>\<open>mat4_identity\<close>, lines 396 to 414: the sixteen values written to \<^verbatim>\<open>dest\<close>.\<close>

definition mat4_identity :: "mat4_t" where
  "mat4_identity = [1, 0, 0, 0, 0, 1, 0, 0, 0, 0, 1, 0, 0, 0, 0, 1]"

subsection \<open>The determinant, for stating properties of the inverse\<close>

text \<open>The determinant of a 4x4 matrix by Laplace expansion along its first four elements,
  with the 3x3 minors by the rule of Sarrus. It is the mathematical notion the properties
  of \<open>mat4_inverse\<close> refer to, written independently of the code.\<close>

definition det3 ::
  "real \<Rightarrow> real \<Rightarrow> real \<Rightarrow> real \<Rightarrow> real \<Rightarrow> real \<Rightarrow> real \<Rightarrow> real \<Rightarrow> real \<Rightarrow> real" where
  "det3 a b c d e f g h i = a * (e * i - f * h) - b * (d * i - f * g) + c * (d * h - e * g)"

definition determinant :: "mat4_t \<Rightarrow> real" where
  "determinant m =
      m ! 0 * det3 (m ! 5) (m ! 6) (m ! 7) (m ! 9) (m ! 10) (m ! 11) (m ! 13) (m ! 14) (m ! 15)
    - m ! 1 * det3 (m ! 4) (m ! 6) (m ! 7) (m ! 8) (m ! 10) (m ! 11) (m ! 12) (m ! 14) (m ! 15)
    + m ! 2 * det3 (m ! 4) (m ! 5) (m ! 7) (m ! 8) (m ! 9) (m ! 11) (m ! 12) (m ! 13) (m ! 15)
    - m ! 3 * det3 (m ! 4) (m ! 5) (m ! 6) (m ! 8) (m ! 9) (m ! 10) (m ! 12) (m ! 13) (m ! 14)"

text \<open>The value \<^verbatim>\<open>d\<close> of \<open>mat4_inverse\<close> and the sixteen numerators it scales by
  \<^verbatim>\<open>invDet\<close>, named so that proofs can speak about them.\<close>

definition det_code :: "mat4_t \<Rightarrow> real" where
  "det_code mat =
    (let a00 = mat ! 0; a01 = mat ! 1; a02 = mat ! 2; a03 = mat ! 3;
         a10 = mat ! 4; a11 = mat ! 5; a12 = mat ! 6; a13 = mat ! 7;
         a20 = mat ! 8; a21 = mat ! 9; a22 = mat ! 10; a23 = mat ! 11;
         a30 = mat ! 12; a31 = mat ! 13; a32 = mat ! 14; a33 = mat ! 15;
         b00 = a00 * a11 - a01 * a10; b01 = a00 * a12 - a02 * a10;
         b02 = a00 * a13 - a03 * a10; b03 = a01 * a12 - a02 * a11;
         b04 = a01 * a13 - a03 * a11; b05 = a02 * a13 - a03 * a12;
         b06 = a20 * a31 - a21 * a30; b07 = a20 * a32 - a22 * a30;
         b08 = a20 * a33 - a23 * a30; b09 = a21 * a32 - a22 * a31;
         b10 = a21 * a33 - a23 * a31; b11 = a22 * a33 - a23 * a32
     in b00 * b11 - b01 * b10 + b02 * b09 + b03 * b08 - b04 * b07 + b05 * b06)"

definition adjugate :: "mat4_t \<Rightarrow> mat4_t" where
  "adjugate mat =
    (let a00 = mat ! 0; a01 = mat ! 1; a02 = mat ! 2; a03 = mat ! 3;
         a10 = mat ! 4; a11 = mat ! 5; a12 = mat ! 6; a13 = mat ! 7;
         a20 = mat ! 8; a21 = mat ! 9; a22 = mat ! 10; a23 = mat ! 11;
         a30 = mat ! 12; a31 = mat ! 13; a32 = mat ! 14; a33 = mat ! 15;
         b00 = a00 * a11 - a01 * a10; b01 = a00 * a12 - a02 * a10;
         b02 = a00 * a13 - a03 * a10; b03 = a01 * a12 - a02 * a11;
         b04 = a01 * a13 - a03 * a11; b05 = a02 * a13 - a03 * a12;
         b06 = a20 * a31 - a21 * a30; b07 = a20 * a32 - a22 * a30;
         b08 = a20 * a33 - a23 * a30; b09 = a21 * a32 - a22 * a31;
         b10 = a21 * a33 - a23 * a31; b11 = a22 * a33 - a23 * a32
     in [a11 * b11 - a12 * b10 + a13 * b09,
         - a01 * b11 + a02 * b10 - a03 * b09,
         a31 * b05 - a32 * b04 + a33 * b03,
         - a21 * b05 + a22 * b04 - a23 * b03,
         - a10 * b11 + a12 * b08 - a13 * b07,
         a00 * b11 - a02 * b08 + a03 * b07,
         - a30 * b05 + a32 * b02 - a33 * b01,
         a20 * b05 - a22 * b02 + a23 * b01,
         a10 * b10 - a11 * b08 + a13 * b06,
         - a00 * b10 + a01 * b08 - a03 * b06,
         a30 * b04 - a31 * b02 + a33 * b00,
         - a20 * b04 + a21 * b02 - a23 * b00,
         - a10 * b09 + a11 * b07 - a12 * b06,
         a00 * b09 - a01 * b07 + a02 * b06,
         - a30 * b03 + a31 * b01 - a32 * b00,
         a20 * b03 - a21 * b01 + a22 * b00])"


section \<open>The window state (core/frontend/emu\_window.cpp)\<close>

text \<open>Modelled from the spec: the declarations of \<^verbatim>\<open>Settings::StereoRenderOption\<close>,
  \<^verbatim>\<open>Common::Rectangle\<close>, \<^verbatim>\<open>Layout::FramebufferLayout\<close>, \<^verbatim>\<open>CameraHackState\<close>,
  \<^verbatim>\<open>FpsCameraController\<close> and \<^verbatim>\<open>VideoCore::RenderHacksInput\<close> are in headers that are
  not part of the source. The records below have the fields that emu\_window.cpp reads and
  writes, with the types its data model gives them. The code compares the stereo option
  with \<^verbatim>\<open>SideBySide\<close> and \<^verbatim>\<open>CardboardVR\<close> only; every other value takes the last branch,
  as \<open>Off\<close> does.\<close>

datatype StereoRenderOption = Off | SideBySide | CardboardVR

record Rectangle =
  left :: u32
  top' :: u32
  right :: u32
  bottom :: u32

text \<open>Modelled from the spec: \<^verbatim>\<open>Rectangle::GetWidth\<close> is declared in a header that is not
  part of the source; the second cardboard rectangle has "the same width as bottom\_screen".\<close>

definition GetWidth :: "Rectangle \<Rightarrow> u32" where
  "GetWidth r = right r - left r"

text \<open>\<open>user_x_shift\<close> is a signed 32-bit integer, held here in two's complement.\<close>

record CardboardSettings =
  bottom_screen_right_eye :: u32
  user_x_shift :: u32

record FramebufferLayout =
  width :: u32
  top_screen :: Rectangle
  bottom_screen :: Rectangle
  is_rotated :: bool
  cardboard :: CardboardSettings

record TouchState =
  touch_pressed :: bool
  touch_x :: real
  touch_y :: real

record CameraHackState =
  grabbed :: bool
  lastX :: real
  lastY :: real
  tx :: real
  ty :: real

record FpsCameraController =
  worldMatrix :: mat4_t
  keyMovement :: "real list"
  mouseMovement :: "real list"

record RenderHacksInput =
  view_matrix :: mat4_t
  disable_fog :: bool

record EmuWindow =
  framebuffer_layout :: FramebufferLayout
  touch_state :: TouchState
  camera_hack_state :: CameraHackState
  fps_camera_controller :: FpsCameraController
  fog_disabled :: bool

section \<open>Coordinate mapping\<close>

text \<open>\<^verbatim>\<open>IsWithinTopScreen\<close>, lines 63 to 73. On a hit the two out-parameters are written
  and the result is \<open>Some\<close> of their values; on a miss they are left alone.\<close>

definition IsWithinTopScreen :: "FramebufferLayout \<Rightarrow> u32 \<Rightarrow> u32 \<Rightarrow> (real \<times> real) option" where
  "IsWithinTopScreen layout fbx fby =
    (if fbx \<ge> left (top_screen layout) \<and> fbx < right (top_screen layout) \<and>
        fby \<ge> top' (top_screen layout) \<and> fby < bottom (top_screen layout)
     then Some (to_float (fbx - left (top_screen layout)),
                to_float (fby - top' (top_screen layout)))
     else None)"

text \<open>\<^verbatim>\<open>IsWithinTouchscreen\<close>, lines 82 to 105. \<^verbatim>\<open>Settings::values.render_3d\<close> is a
  global; it is the first argument here.\<close>

definition IsWithinTouchscreen :: "StereoRenderOption \<Rightarrow> FramebufferLayout \<Rightarrow> u32 \<Rightarrow> u32 \<Rightarrow> bool" where
  "IsWithinTouchscreen render_3d layout framebuffer_x framebuffer_y =
    (if render_3d = SideBySide then
       (framebuffer_y \<ge> top' (bottom_screen layout) \<and>
        framebuffer_y < bottom (bottom_screen layout) \<and>
        ((framebuffer_x \<ge> left (bottom_screen layout) div 2 \<and>
          framebuffer_x < right (bottom_screen layout) div 2) \<or>
         (framebuffer_x \<ge> (left (bottom_screen layout) div 2) + (width layout div 2) \<and>
          framebuffer_x < (right (bottom_screen layout) div 2) + (width layout div 2))))
     else if render_3d = CardboardVR then
       (framebuffer_y \<ge> top' (bottom_screen layout) \<and>
        framebuffer_y < bottom (bottom_screen layout) \<and>
        ((framebuffer_x \<ge> left (bottom_screen layout) \<and>
          framebuffer_x < right (bottom_screen layout)) \<or>
         (framebuffer_x \<ge> bottom_screen_right_eye (cardboard layout) + (width layout div 2) \<and>
          framebuffer_x < bottom_screen_right_eye (cardboard layout) +
                            GetWidth (bottom_screen layout) + (width layout div 2))))
     else
       (framebuffer_y \<ge> top' (bottom_screen layout) \<and>
        framebuffer_y < bottom (bottom_screen layout) \<and>
        framebuffer_x \<ge> left (bottom_screen layout) \<and>
        framebuffer_x < right (bottom_screen layout)))"

text \<open>\<^verbatim>\<open>EmuWindow::ClipToTouchScreen\<close>, lines 107 to 127.\<close>

definition ClipToTouchScreen :: "StereoRenderOption \<Rightarrow> FramebufferLayout \<Rightarrow> u32 \<Rightarrow> u32 \<Rightarrow> u32 \<times> u32" where
  "ClipToTouchScreen render_3d layout new_x new_y =
    (let new_x =
           (if new_x \<ge> width layout div 2 then
              (if render_3d = SideBySide then new_x - width layout div 2
               else if render_3d = CardboardVR then
                 new_x - ((width layout div 2) - (user_x_shift (cardboard layout) * 2))
               else new_x)
            else new_x);
         new_x =
           (if render_3d = SideBySide then
              min (max new_x (left (bottom_screen layout) div 2))
                  (right (bottom_screen layout) div 2 - 1)
            else
              min (max new_x (left (bottom_screen layout)))
                  (right (bottom_screen layout) - 1));
         new_y = max new_y (top' (bottom_screen layout));
         new_y = min new_y (bottom (bottom_screen layout) - 1)
     in (new_x, new_y))"

section \<open>Touch events\<close>

text \<open>\<^verbatim>\<open>EmuWindow::TouchPressed\<close>, lines 129 to 170. The first component of the result is
  the returned \<^verbatim>\<open>bool\<close>; the branch that grabs the camera leaves through \<^verbatim>\<open>return;\<close>,
  without a value, which is \<open>None\<close>. The divisions are divisions of floats: the
  \<^verbatim>\<open>unsigned\<close> denominator is converted first.\<close>

definition TouchPressed ::
  "StereoRenderOption \<Rightarrow> EmuWindow \<Rightarrow> u32 \<Rightarrow> u32 \<Rightarrow> bool option \<times> EmuWindow" where
  "TouchPressed render_3d w framebuffer_x framebuffer_y =
    (let layout = framebuffer_layout w in
     case IsWithinTopScreen layout framebuffer_x framebuffer_y of
       Some (nx, ny) \<Rightarrow>
         (None, w\<lparr>camera_hack_state :=
                    (camera_hack_state w)\<lparr>tx := nx, ty := ny, lastX := nx, lastY := ny,
                                           grabbed := True\<rparr>\<rparr>)
     | None \<Rightarrow>
         if \<not> IsWithinTouchscreen render_3d layout framebuffer_x framebuffer_y
         then (Some False, w)
         else
          (let framebuffer_x =
                 (if framebuffer_x \<ge> width layout div 2 then
                    (if render_3d = SideBySide then framebuffer_x - width layout div 2
                     else if render_3d = CardboardVR then
                       framebuffer_x -
                         ((width layout div 2) - (user_x_shift (cardboard layout) * 2))
                     else framebuffer_x)
                  else framebuffer_x);
               new_x =
                 (if render_3d = SideBySide then
                    to_float (framebuffer_x - left (bottom_screen layout) div 2) /
                    to_float (right (bottom_screen layout) div 2 -
                              left (bottom_screen layout) div 2)
                  else
                    to_float (framebuffer_x - left (bottom_screen layout)) /
                    to_float (right (bottom_screen layout) - left (bottom_screen layout)));
               new_y =
                 to_float (framebuffer_y - top' (bottom_screen layout)) /
                 to_float (bottom (bottom_screen layout) - top' (bottom_screen layout));
               (new_x, new_y) =
                 (if \<not> is_rotated layout
                  then (let (sx, sy) = (new_y, new_x) in (1 - sx, sy))
                  else (new_x, new_y))
           in (Some True,
               w\<lparr>touch_state :=
                   (touch_state w)\<lparr>touch_x := new_x, touch_y := new_y,
                                   touch_pressed := True\<rparr>\<rparr>)))"

text \<open>\<^verbatim>\<open>EmuWindow::TouchReleased\<close>, lines 172 to 184.\<close>

definition TouchReleased :: "EmuWindow \<Rightarrow> EmuWindow" where
  "TouchReleased w =
    (if grabbed (camera_hack_state w)
     then w\<lparr>camera_hack_state := (camera_hack_state w)\<lparr>grabbed := False\<rparr>\<rparr>
     else w\<lparr>touch_state :=
              (touch_state w)\<lparr>touch_pressed := False, touch_x := 0, touch_y := 0\<rparr>\<rparr>)"

text \<open>\<^verbatim>\<open>EmuWindow::TouchMoved\<close>, lines 331 to 344. The result of the first
  \<^verbatim>\<open>IsWithinTopScreen\<close> is dropped; only its writes to \<^verbatim>\<open>tx\<close> and \<^verbatim>\<open>ty\<close> remain.\<close>

definition TouchMoved :: "StereoRenderOption \<Rightarrow> EmuWindow \<Rightarrow> u32 \<Rightarrow> u32 \<Rightarrow> EmuWindow" where
  "TouchMoved render_3d w framebuffer_x framebuffer_y =
    (let w =
           (if grabbed (camera_hack_state w) then
              (case IsWithinTopScreen (framebuffer_layout w) framebuffer_x framebuffer_y of
                 Some (nx, ny) \<Rightarrow>
                   w\<lparr>camera_hack_state := (camera_hack_state w)\<lparr>tx := nx, ty := ny\<rparr>\<rparr>
               | None \<Rightarrow> w)
            else w)
     in if \<not> touch_pressed (touch_state w) then w
        else
         (let (framebuffer_x, framebuffer_y) =
                (if \<not> IsWithinTouchscreen render_3d (framebuffer_layout w)
                        framebuffer_x framebuffer_y
                 then ClipToTouchScreen render_3d (framebuffer_layout w)
                        framebuffer_x framebuffer_y
                 else (framebuffer_x, framebuffer_y))
          in snd (TouchPressed render_3d w framebuffer_x framebuffer_y)))"


section \<open>The camera controller\<close>

text \<open>What one call of \<^verbatim>\<open>UpdateCameraHack\<close> takes from its environment: the status of
  the eight buttons (\<^verbatim>\<open>buttons[0]\<close> to \<^verbatim>\<open>buttons[7]\<close>, in the order W, A, S, D, Shift,
  B, Q, E), the content of the local \<^verbatim>\<open>input.view_matrix\<close> as its declaration without
  an initialiser leaves it, and the double that \<^verbatim>\<open>isZero\<close> reads at index 2 when it is
  handed \<^verbatim>\<open>mouseMovement\<close>, which has two elements.\<close>

record TickInput =
  keyW :: bool
  keyA :: bool
  keyS :: bool
  keyD :: bool
  isShiftPressed :: bool
  keyB :: bool
  keyQ :: bool
  keyE :: bool
  view_matrix_declared :: mat4_t
  after_mouseMovement :: real

text \<open>\<^verbatim>\<open>clamp\<close>, \<^verbatim>\<open>clampRange\<close> and \<^verbatim>\<open>isZero\<close>, lines 186 to 196.\<close>

definition clamp :: "real \<Rightarrow> real \<Rightarrow> real \<Rightarrow> real" where
  "clamp v mn mx = min (max v mn) mx"

definition clampRange :: "real \<Rightarrow> real \<Rightarrow> real" where
  "clampRange v r = clamp v (- r) r"

definition isZero :: "real list \<Rightarrow> bool" where
  "isZero v = (v ! 0 = 0 \<and> v ! 1 = 0 \<and> v ! 2 = 0)"

text \<open>The constants of \<^verbatim>\<open>UpdateCameraHack\<close>, lines 234 to 238, 302 and 317.\<close>

definition keyMoveSpeed :: real where "keyMoveSpeed = 10"
definition keyMoveShiftMult :: real where "keyMoveShiftMult = 5"
definition keyMoveVelocityMult :: real where "keyMoveVelocityMult = 1 / 5"
definition keyMoveDrag :: real where "keyMoveDrag = 8 / 10"
definition keyMoveLowSpeedCap :: real where "keyMoveLowSpeedCap = 1 / 100"
definition mouseMoveLowSpeedCap :: real where "mouseMoveLowSpeedCap = 1 / 10000"
definition mouseLookDrag :: real where "mouseLookDrag = 0"

text \<open>Lines 240 to 244: the cap of the velocity, from the boost modifier.\<close>

definition keyMoveSpeedCap :: "bool \<Rightarrow> real" where
  "keyMoveSpeedCap shift = keyMoveSpeed * (if shift then keyMoveShiftMult else 1)"

text \<open>Lines 245 to 276: the three velocities, in the order the code updates them
  (index 2 from W and S, index 0 from A and D, index 1 from Q and E).\<close>

definition move_keys :: "TickInput \<Rightarrow> real list \<Rightarrow> real list" where
  "move_keys i km =
    (let cap = keyMoveSpeedCap (isShiftPressed i);
         keyMoveVelocity = cap * keyMoveVelocityMult;
         km = (if keyW i then km[2 := clampRange (km ! 2 - keyMoveVelocity) cap]
               else if keyS i then km[2 := clampRange (km ! 2 + keyMoveVelocity) cap]
               else (let km = km[2 := km ! 2 * keyMoveDrag]
                     in if \<bar>km ! 2\<bar> < keyMoveLowSpeedCap then km[2 := 0] else km));
         km = (if keyA i then km[0 := clampRange (km ! 0 - keyMoveVelocity) cap]
               else if keyD i then km[0 := clampRange (km ! 0 + keyMoveVelocity) cap]
               else (let km = km[0 := km ! 0 * keyMoveDrag]
                     in if \<bar>km ! 0\<bar> < keyMoveLowSpeedCap then km[0 := 0] else km));
         km = (if keyQ i then km[1 := clampRange (km ! 1 - keyMoveVelocity) cap]
               else if keyE i then km[1 := clampRange (km ! 1 + keyMoveVelocity) cap]
               else (let km = km[1 := km ! 1 * keyMoveDrag]
                     in if \<bar>km ! 1\<bar> < keyMoveLowSpeedCap then km[1 := 0] else km))
     in km)"

text \<open>Lines 289 to 300: the translation of the world matrix. \<^verbatim>\<open>finalMovement\<close> is
  computed as the code computes it; the call of \<^verbatim>\<open>mat4_translate\<close> is handed
  \<^verbatim>\<open>keyMovement\<close>, with \<^verbatim>\<open>dest\<close> and \<^verbatim>\<open>mat\<close> both \<^verbatim>\<open>worldMatrix\<close>.\<close>

definition move_world :: "real list \<Rightarrow> mat4_t \<Rightarrow> real list \<Rightarrow> mat4_t" where
  "move_world cameraUp wm km =
    (if \<not> isZero km then
       (let finalMovement = [km ! 0, 0, km ! 2];
            finalMovement = finalMovement[0 := finalMovement ! 0 + cameraUp ! 0 * km ! 1];
            finalMovement = finalMovement[1 := finalMovement ! 1 + cameraUp ! 1 * km ! 1];
            finalMovement = finalMovement[2 := finalMovement ! 2 + cameraUp ! 2 * km ! 1]
        in mat4_translate True wm km)
     else wm)"

text \<open>Modelled from the spec: \<^verbatim>\<open>Vec3::Normalize\<close> is declared in a header that is not
  part of the source; the rotation is about the normalized axis, the vector divided by
  its length. In \<^typ>\<open>real\<close> a division by the length 0 gives 0, where the doubles of the
  code give NaN.\<close>

definition Normalize :: "real list \<Rightarrow> real list" where
  "Normalize v =
    (let len = sqrt (v ! 0 * v ! 0 + v ! 1 * v ! 1 + v ! 2 * v ! 2)
     in [v ! 0 / len, v ! 1 / len, v ! 2 / len])"

text \<open>Lines 304 to 322: the rotation. A \<^verbatim>\<open>mat4_rotate\<close> that returns \<^verbatim>\<open>NULL\<close> has not
  written \<^verbatim>\<open>worldMatrix\<close>. The result is the world matrix and \<^verbatim>\<open>mouseMovement\<close>.\<close>

definition look_world ::
  "TickInput \<Rightarrow> real \<times> real \<Rightarrow> real list \<Rightarrow> mat4_t \<Rightarrow> real list \<Rightarrow> mat4_t \<times> real list" where
  "look_world i mouseDelta cameraUp wm mm =
    (let mm = mm[0 := mm ! 0 + fst mouseDelta / (- 500)];
         mm = mm[1 := mm ! 1 + snd mouseDelta / (- 500)];
         wm = (if \<not> isZero (take 2 mm @ [after_mouseMovement i]) then
                 (let tmp = Normalize cameraUp;
                      wm = (case mat4_rotate wm (mm ! 0) tmp of None \<Rightarrow> wm | Some r \<Rightarrow> r);
                      worldUp = [1, 0, 0];
                      wm = (case mat4_rotate wm (mm ! 1) worldUp of None \<Rightarrow> wm | Some r \<Rightarrow> r)
                  in wm)
               else wm);
         mm = mm[0 := mm ! 0 * mouseLookDrag];
         mm = mm[1 := mm ! 1 * mouseLookDrag];
         mm = (if \<bar>mm ! 0\<bar> < mouseMoveLowSpeedCap then mm[0 := 0] else mm);
         mm = (if \<bar>mm ! 1\<bar> < mouseMoveLowSpeedCap then mm[1 := 0] else mm)
     in (wm, mm))"

text \<open>Lines 228 to 230: the mouse delta a tick derives from the grab coordinates.\<close>

definition mouse_delta :: "CameraHackState \<Rightarrow> real \<times> real" where
  "mouse_delta c = (tx c - lastX c, ty c - lastY c)"

text \<open>\<^verbatim>\<open>EmuWindow::UpdateCameraHack\<close>, lines 198 to 329. The second component of the
  result is the list of the calls of \<^verbatim>\<open>g_renderer->SetRenderHacks\<close> the tick makes, each
  with its argument. \<^verbatim>\<open>mat4_inverse\<close> writes \<^verbatim>\<open>input.view_matrix\<close> when it succeeds;
  its result is not looked at.\<close>

definition UpdateCameraHack :: "TickInput \<Rightarrow> EmuWindow \<Rightarrow> EmuWindow \<times> RenderHacksInput list" where
  "UpdateCameraHack i w =
    (let c = camera_hack_state w;
         f = fps_camera_controller w;
         mouseDelta = mouse_delta c;
         c = c\<lparr>lastX := tx c, lastY := ty c\<rparr>;
         km = move_keys i (keyMovement f);
         wm = (if keyB i then mat4_identity else worldMatrix f);
         cameraUp = [wm ! 1, wm ! 5, wm ! 9];
         wm = move_world cameraUp wm km;
         (wm, mm) = look_world i mouseDelta cameraUp wm (mouseMovement f);
         input = \<lparr>view_matrix =
                    (case mat4_inverse wm of None \<Rightarrow> view_matrix_declared i | Some v \<Rightarrow> v),
                  disable_fog = fog_disabled w\<rparr>
     in (w\<lparr>camera_hack_state := c,
           fps_camera_controller := f\<lparr>worldMatrix := wm, keyMovement := km, mouseMovement := mm\<rparr>\<rparr>,
         [input]))"

text \<open>A run of ticks, one input per tick.\<close>

fun ticks :: "TickInput list \<Rightarrow> EmuWindow \<Rightarrow> EmuWindow" where
  "ticks [] w = w"
| "ticks (i # rest) w = ticks rest (fst (UpdateCameraHack i w))"

text \<open>The two buttons of each movement axis, by the index of the axis in
  \<^verbatim>\<open>keyMovement\<close>: the one that lowers the velocity and the one that raises it.\<close>

definition neg_key :: "nat \<Rightarrow> TickInput \<Rightarrow> bool" where
  "neg_key k i = (if k = 0 then keyA i else if k = 1 then keyQ i else keyW i)"

definition pos_key :: "nat \<Rightarrow> TickInput \<Rightarrow> bool" where
  "pos_key k i = (if k = 0 then keyD i else if k = 1 then keyE i else keyS i)"

text \<open>The vector the vertical velocity projected on the up axis of the world matrix gives:
  the value of \<^verbatim>\<open>finalMovement\<close> at the end of lines 290 to 297.\<close>

definition projected_movement :: "mat4_t \<Rightarrow> real list \<Rightarrow> real list" where
  "projected_movement wm km =
    [km ! 0 + wm ! 1 * km ! 1, wm ! 5 * km ! 1, km ! 2 + wm ! 9 * km ! 1]"


section \<open>Concrete inputs\<close>

text \<open>An invertible matrix that is not a rigid motion.\<close>

definition sample_matrix :: mat4_t where
  "sample_matrix = [1, 2, 0, 0, 3, 4, 0, 0, 0, 0, 1, 0, 5, 6, 7, 1]"

text \<open>The world matrix turned a quarter about the z axis: its up axis, read at indices 1, 5
  and 9, is \<open>(1, 0, 0)\<close>.\<close>

definition quarter_turn :: mat4_t where
  "quarter_turn = [0, 1, 0, 0, - 1, 0, 0, 0, 0, 0, 1, 0, 0, 0, 0, 1]"

definition zero_matrix :: mat4_t where
  "zero_matrix = [0, 0, 0, 0, 0, 0, 0, 0, 0, 0, 0, 0, 0, 0, 0, 0]"

text \<open>A tick with no button held and no pending mouse movement. The content of the
  declared \<^verbatim>\<open>input.view_matrix\<close> is sixteen times 9, to tell it from any computed value.\<close>

definition idle_input :: TickInput where
  "idle_input =
    \<lparr>keyW = False, keyA = False, keyS = False, keyD = False, isShiftPressed = False,
     keyB = False, keyQ = False, keyE = False,
     view_matrix_declared = [9, 9, 9, 9, 9, 9, 9, 9, 9, 9, 9, 9, 9, 9, 9, 9],
     after_mouseMovement = 0\<rparr>"

text \<open>The layout of the spec's scenario: the top screen above the bottom screen.\<close>

definition stacked_layout :: FramebufferLayout where
  "stacked_layout =
    \<lparr>width = 400,
     top_screen = \<lparr>left = 0, top' = 0, right = 400, bottom = 240\<rparr>,
     bottom_screen = \<lparr>left = 40, top' = 240, right = 360, bottom = 480\<rparr>,
     is_rotated = True,
     cardboard = \<lparr>bottom_screen_right_eye = 0, user_x_shift = 0\<rparr>\<rparr>"

text \<open>The same at twice the width, for side-by-side stereo.\<close>

definition stereo_layout :: FramebufferLayout where
  "stereo_layout =
    \<lparr>width = 800,
     top_screen = \<lparr>left = 0, top' = 0, right = 800, bottom = 240\<rparr>,
     bottom_screen = \<lparr>left = 80, top' = 240, right = 720, bottom = 480\<rparr>,
     is_rotated = True,
     cardboard = \<lparr>bottom_screen_right_eye = 0, user_x_shift = 0\<rparr>\<rparr>"

text \<open>The two screens side by side in a window of 720 by 240 pixels: the top screen on
  the left and the bottom screen on the right, and the two swapped.\<close>

definition side_layout :: FramebufferLayout where
  "side_layout =
    \<lparr>width = 720,
     top_screen = \<lparr>left = 0, top' = 0, right = 400, bottom = 240\<rparr>,
     bottom_screen = \<lparr>left = 400, top' = 0, right = 720, bottom = 240\<rparr>,
     is_rotated = True,
     cardboard = \<lparr>bottom_screen_right_eye = 0, user_x_shift = 0\<rparr>\<rparr>"

definition side_layout_swapped :: FramebufferLayout where
  "side_layout_swapped =
    \<lparr>width = 720,
     top_screen = \<lparr>left = 320, top' = 0, right = 720, bottom = 240\<rparr>,
     bottom_screen = \<lparr>left = 0, top' = 0, right = 320, bottom = 240\<rparr>,
     is_rotated = True,
     cardboard = \<lparr>bottom_screen_right_eye = 0, user_x_shift = 0\<rparr>\<rparr>"

text \<open>A layout whose bottom screen is wider than the framebuffer.\<close>

definition wide_layout :: FramebufferLayout where
  "wide_layout =
    \<lparr>width = 400,
     top_screen = \<lparr>left = 0, top' = 300, right = 400, bottom = 500\<rparr>,
     bottom_screen = \<lparr>left = 0, top' = 0, right = 800, bottom = 240\<rparr>,
     is_rotated = True,
     cardboard = \<lparr>bottom_screen_right_eye = 0, user_x_shift = 0\<rparr>\<rparr>"

text \<open>A window at rest on a given layout: nothing pressed, nothing grabbed, the camera at
  the identity with no velocity.\<close>

definition window_at :: "FramebufferLayout \<Rightarrow> EmuWindow" where
  "window_at layout =
    \<lparr>framebuffer_layout = layout,
     touch_state = \<lparr>touch_pressed = False, touch_x = 0, touch_y = 0\<rparr>,
     camera_hack_state = \<lparr>grabbed = False, lastX = 0, lastY = 0, tx = 0, ty = 0\<rparr>,
     fps_camera_controller =
       \<lparr>worldMatrix = mat4_identity, keyMovement = [0, 0, 0], mouseMovement = [0, 0]\<rparr>,
     fog_disabled = False\<rparr>"

text \<open>The same window with a given world matrix.\<close>

definition window_with_matrix :: "mat4_t \<Rightarrow> EmuWindow" where
  "window_with_matrix m =
    (window_at stacked_layout)
      \<lparr>fps_camera_controller :=
         \<lparr>worldMatrix = m, keyMovement = [0, 0, 0], mouseMovement = [0, 0]\<rparr>\<rparr>"

text \<open>On \<open>side_layout\<close> under side-by-side stereo: a press in the right-eye touch
  region, then a press on the top screen.\<close>

definition pressed_window :: EmuWindow where
  "pressed_window = snd (TouchPressed SideBySide (window_at side_layout) 600 100)"

definition pressed_grabbed_window :: EmuWindow where
  "pressed_grabbed_window = snd (TouchPressed SideBySide pressed_window 100 100)"

text \<open>A tick with one button held, and a tick with the boost modifier and W held.\<close>

definition hold_E :: TickInput where
  "hold_E = idle_input\<lparr>keyE := True\<rparr>"

definition hold_W_boost :: TickInput where
  "hold_W_boost = idle_input\<lparr>keyW := True, isShiftPressed := True\<rparr>"

text \<open>A window whose camera moves backwards with velocity 1.\<close>

definition drifting_window :: EmuWindow where
  "drifting_window =
    (window_at stacked_layout)
      \<lparr>fps_camera_controller :=
         \<lparr>worldMatrix = mat4_identity, keyMovement = [0, 0, 1], mouseMovement = [0, 0]\<rparr>\<rparr>"

text \<open>On \<open>stacked_layout\<close> with stereo off: a press on the bottom screen, then a press on
  the top screen.\<close>

definition stacked_pressed_grabbed :: EmuWindow where
  "stacked_pressed_grabbed =
     snd (TouchPressed Off (snd (TouchPressed Off (window_at stacked_layout) 200 360)) 100 100)"

section \<open>Notions used in the proofs\<close>

text \<open>What each of the three blocks of \<open>move_keys\<close> does to its velocity, given the status
  of the button that lowers it, of the button that raises it and of the boost modifier.\<close>

definition axis_step :: "bool \<Rightarrow> bool \<Rightarrow> bool \<Rightarrow> real \<Rightarrow> real" where
  "axis_step neg pos shift v =
    (let cap = keyMoveSpeedCap shift; keyMoveVelocity = cap * keyMoveVelocityMult
     in if neg then clampRange (v - keyMoveVelocity) cap
        else if pos then clampRange (v + keyMoveVelocity) cap
        else if \<bar>v * keyMoveDrag\<bar> < keyMoveLowSpeedCap then 0 else v * keyMoveDrag)"

text \<open>The magnitude of a velocity that started at 0 after \<open>n\<close> ticks of acceleration.\<close>

definition ramp :: "bool \<Rightarrow> nat \<Rightarrow> real" where
  "ramp sh n = min (real n * (keyMoveSpeedCap sh / 5)) (keyMoveSpeedCap sh)"

text \<open>The window with the layout's \<^verbatim>\<open>is_rotated\<close> set.\<close>

definition with_rotated :: "bool \<Rightarrow> EmuWindow \<Rightarrow> EmuWindow" where
  "with_rotated b w = w\<lparr>framebuffer_layout := (framebuffer_layout w)\<lparr>is_rotated := b\<rparr>\<rparr>"

section \<open>The inverse\<close>

lemma list16:
  "length (m :: 'a list) = 16 \<Longrightarrow>
   m = [m ! 0, m ! 1, m ! 2, m ! 3, m ! 4, m ! 5, m ! 6, m ! 7,
        m ! 8, m ! 9, m ! 10, m ! 11, m ! 12, m ! 13, m ! 14, m ! 15]"
  apply (rule nth_equalityI)
   apply simp
  apply (simp add: numeral_eq_Suc less_Suc_eq)
  apply (elim disjE)
                 apply simp_all
  done

lemma mat4_inverse_adjugate:
  "mat4_inverse m =
     (if det_code m = 0 then None
      else Some (map (\<lambda>c. c * (1 / det_code m)) (adjugate m)))"
  unfolding mat4_inverse_def det_code_def adjugate_def Let_def by simp

lemma det_code_determinant: "det_code m = determinant m"
  unfolding det_code_def determinant_def det3_def Let_def by (simp add: algebra_simps)

lemma length_adjugate: "length (adjugate m) = 16"
  unfolding adjugate_def Let_def by simp

lemma mat4_multiply_scaled:
  assumes len: "length A = 16"
  shows "mat4_multiply (map (\<lambda>c. c * k) A) M = map (\<lambda>c. c * k) (mat4_multiply A M)"
proof -
  obtain a0 a1 a2 a3 a4 a5 a6 a7 a8 a9 a10 a11 a12 a13 a14 a15 where
    A: "A = [a0, a1, a2, a3, a4, a5, a6, a7, a8, a9, a10, a11, a12, a13, a14, a15]"
    using list16 [OF len] by blast
  show ?thesis
    unfolding A mat4_multiply_def Let_def by (simp add: algebra_simps)
qed

lemma mat4_multiply_adjugate:
  assumes len: "length m = 16"
  shows "mat4_multiply (adjugate m) m = map (\<lambda>c. c * det_code m) mat4_identity"
proof -
  obtain a0 a1 a2 a3 a4 a5 a6 a7 a8 a9 a10 a11 a12 a13 a14 a15 where
    m: "m = [a0, a1, a2, a3, a4, a5, a6, a7, a8, a9, a10, a11, a12, a13, a14, a15]"
    using list16 [OF len] by blast
  show ?thesis
    unfolding m mat4_multiply_def adjugate_def det_code_def mat4_identity_def Let_def
    apply simp
    apply (intro conjI)
                   apply (simp_all add: algebra_simps)
    done
qed

text \<open>
  Claim C8. \<open>mat4_inverse\<close> of the identity matrix is the identity matrix; and for every
  4x4 matrix \<open>M\<close> whose determinant is not zero, \<open>mat4_inverse\<close> succeeds and
  \<open>mat4_multiply\<close> of the inverse and \<open>M\<close> is the identity matrix, exactly, over exact
  arithmetic.
\<close>

theorem mat4_inverse_is_inverse:
  "mat4_inverse mat4_identity = Some mat4_identity \<and>
   (length M = 16 \<longrightarrow> determinant M \<noteq> 0 \<longrightarrow>
     (\<exists>I. mat4_inverse M = Some I \<and> mat4_multiply I M = mat4_identity))"
proof (intro conjI impI)
  show "mat4_inverse mat4_identity = Some mat4_identity"
    by (simp add: mat4_inverse_def mat4_identity_def)
next
  assume len: "length M = 16" and det: "determinant M \<noteq> 0"
  let ?d = "det_code M"
  let ?I = "map (\<lambda>c. c * (1 / ?d)) (adjugate M)"
  have d: "?d \<noteq> 0"
    using det by (simp add: det_code_determinant)
  have inv: "mat4_inverse M = Some ?I"
    using d by (simp add: mat4_inverse_adjugate)
  have "mat4_multiply ?I M = map (\<lambda>c. c * (1 / ?d)) (mat4_multiply (adjugate M) M)"
    by (rule mat4_multiply_scaled) (rule length_adjugate)
  also have "\<dots> = map (\<lambda>c. c * (1 / ?d)) (map (\<lambda>c. c * ?d) mat4_identity)"
    by (simp only: mat4_multiply_adjugate [OF len])
  also have "\<dots> = mat4_identity"
    using d by (simp add: mat4_identity_def)
  finally have "mat4_multiply ?I M = mat4_identity" .
  with inv show "\<exists>I. mat4_inverse M = Some I \<and> mat4_multiply I M = mat4_identity"
    by blast
qed

theorem mat4_inverse_is_inverse_witness:
  "length sample_matrix = 16 \<and> determinant sample_matrix \<noteq> 0 \<and>
   (\<exists>I. mat4_inverse sample_matrix = Some I \<and>
        mat4_multiply I sample_matrix = mat4_identity)"
  using mat4_inverse_is_inverse [of sample_matrix]
  by (simp add: sample_matrix_def determinant_def det3_def)


section \<open>Properties of the touch events\<close>

lemmas touch_eval =
  TouchPressed_def IsWithinTopScreen_def IsWithinTouchscreen_def to_float_def window_at_def Let_def

lemma unat_half: "unat ((a :: u32) div 2) = unat a div 2"
  by (simp add: unat_div)

lemma unat_half_sum: "unat ((a :: u32) div 2 + b div 2) = unat a div 2 + unat b div 2"
proof -
  have a: "unat a < 2 ^ 32" and b: "unat b < 2 ^ 32"
    using unsigned_less [of a] unsigned_less [of b] by simp_all
  have "unat (a div 2) + unat (b div 2) < 2 ^ LENGTH(32)"
    using a b by (simp add: unat_div)
  then have "unat (a div 2 + b div 2) = unat (a div 2) + unat (b div 2)"
    by (simp only: unat_add_lem)
  then show ?thesis by (simp add: unat_div)
qed

text \<open>A pixel that \<open>IsWithinTouchscreen\<close> accepts never makes \<open>TouchPressed\<close> divide by
  zero, so the divisions of the model are the divisions of the code.\<close>

lemma to_float_eq_0: "to_float d = 0 \<longleftrightarrow> d = 0"
  by (simp add: to_float_def unsigned_eq_0_iff)

lemma accepted_touch_denominators:
  assumes "IsWithinTouchscreen r L x y"
  shows "to_float (bottom (bottom_screen L) - top' (bottom_screen L)) \<noteq> 0 \<and>
         (if r = SideBySide
          then to_float (right (bottom_screen L) div 2 - left (bottom_screen L) div 2) \<noteq> 0
          else to_float (right (bottom_screen L) - left (bottom_screen L)) \<noteq> 0)"
  using assms
  by (auto simp add: IsWithinTouchscreen_def GetWidth_def to_float_eq_0 split: if_splits)

lemma pressed_window_eq:
  "pressed_window =
     (window_at side_layout)
       \<lparr>touch_state := \<lparr>touch_pressed = True, touch_x = 1 / 4, touch_y = 5 / 12\<rparr>\<rparr>"
  by (simp add: pressed_window_def touch_eval side_layout_def)

lemma pressed_grabbed_window_eq:
  "pressed_grabbed_window =
     (window_at side_layout)
       \<lparr>touch_state := \<lparr>touch_pressed = True, touch_x = 1 / 4, touch_y = 5 / 12\<rparr>,
        camera_hack_state := \<lparr>grabbed = True, lastX = 100, lastY = 100, tx = 100, ty = 100\<rparr>\<rparr>"
  by (simp add: pressed_grabbed_window_def pressed_window_eq) (simp add: touch_eval side_layout_def)

text \<open>
  Claim C9. A \<open>TouchPressed\<close> whose pixel hits the top screen sets the grab state of the
  camera (\<open>grabbed\<close>, \<open>tx\<close> and \<open>ty\<close>, \<open>lastX\<close> and \<open>lastY\<close>) and changes nothing else, so
  every field of the touch state is as before; and a \<open>TouchReleased\<close> made while \<open>grabbed\<close>
  is true clears the \<open>grabbed\<close> flag and changes nothing else, so every field of the touch
  state is as before.
\<close>

theorem grab_leaves_touch_state:
  "(IsWithinTopScreen (framebuffer_layout w) x y = Some (nx, ny) \<longrightarrow>
      TouchPressed r w x y =
        (None, w\<lparr>camera_hack_state :=
                   \<lparr>grabbed = True, lastX = nx, lastY = ny, tx = nx, ty = ny\<rparr>\<rparr>) \<and>
      touch_state (snd (TouchPressed r w x y)) = touch_state w) \<and>
   (grabbed (camera_hack_state v) \<longrightarrow>
      TouchReleased v = v\<lparr>camera_hack_state := (camera_hack_state v)\<lparr>grabbed := False\<rparr>\<rparr> \<and>
      touch_state (TouchReleased v) = touch_state v)"
  by (simp add: TouchPressed_def TouchReleased_def)

theorem grab_leaves_touch_state_witness:
  "IsWithinTopScreen (framebuffer_layout pressed_window) 100 100 = Some (100, 100) \<and>
   TouchPressed SideBySide pressed_window 100 100 =
     (None, pressed_window\<lparr>camera_hack_state :=
              \<lparr>grabbed = True, lastX = 100, lastY = 100, tx = 100, ty = 100\<rparr>\<rparr>) \<and>
   touch_state (snd (TouchPressed SideBySide pressed_window 100 100)) =
     \<lparr>touch_pressed = True, touch_x = 1 / 4, touch_y = 5 / 12\<rparr> \<and>
   grabbed (camera_hack_state pressed_grabbed_window) \<and>
   touch_state (TouchReleased pressed_grabbed_window) =
     \<lparr>touch_pressed = True, touch_x = 1 / 4, touch_y = 5 / 12\<rparr>"
proof -
  have hit: "IsWithinTopScreen (framebuffer_layout pressed_window) 100 100 = Some (100, 100)"
    by (simp add: pressed_window_eq) (simp add: touch_eval side_layout_def)
  have g: "grabbed (camera_hack_state pressed_grabbed_window)"
    by (simp add: pressed_grabbed_window_eq)
  show ?thesis
    using grab_leaves_touch_state
      [of pressed_window 100 100 100 100 SideBySide pressed_grabbed_window] hit g
    by (simp add: pressed_window_eq pressed_grabbed_window_eq)
qed


text \<open>
  Claim C5. With stereo rendering off, on a layout whose bottom screen is
  \<open>{left: 40, top: 240, right: 360, bottom: 480}\<close>, whose width is 400, which is rotated
  and whose top screen does not contain the pixel \<open>(200, 360)\<close>, \<open>TouchPressed\<close> at
  \<open>(200, 360)\<close> returns true, sets \<open>touch_pressed\<close> and stores the coordinates \<open>0.5\<close>
  and \<open>0.5\<close>, and changes nothing else.
\<close>

theorem touch_scenario_centre:
  assumes "bottom_screen (framebuffer_layout w) =
             \<lparr>left = 40, top' = 240, right = 360, bottom = 480\<rparr>"
      and "width (framebuffer_layout w) = 400"
      and "is_rotated (framebuffer_layout w)"
      and "IsWithinTopScreen (framebuffer_layout w) 200 360 = None"
  shows "TouchPressed Off w 200 360 =
           (Some True,
            w\<lparr>touch_state := \<lparr>touch_pressed = True, touch_x = 1 / 2, touch_y = 1 / 2\<rparr>\<rparr>)"
  using assms by (simp add: TouchPressed_def IsWithinTouchscreen_def to_float_def)

theorem touch_scenario_centre_witness:
  "bottom_screen (framebuffer_layout (window_at stacked_layout)) =
     \<lparr>left = 40, top' = 240, right = 360, bottom = 480\<rparr> \<and>
   width (framebuffer_layout (window_at stacked_layout)) = 400 \<and>
   is_rotated (framebuffer_layout (window_at stacked_layout)) \<and>
   IsWithinTopScreen (framebuffer_layout (window_at stacked_layout)) 200 360 = None \<and>
   TouchPressed Off (window_at stacked_layout) 200 360 =
     (Some True,
      (window_at stacked_layout)
        \<lparr>touch_state := \<lparr>touch_pressed = True, touch_x = 1 / 2, touch_y = 1 / 2\<rparr>\<rparr>)"
proof -
  have a: "bottom_screen (framebuffer_layout (window_at stacked_layout)) =
             \<lparr>left = 40, top' = 240, right = 360, bottom = 480\<rparr>"
    and b: "width (framebuffer_layout (window_at stacked_layout)) = 400"
    and c: "is_rotated (framebuffer_layout (window_at stacked_layout))"
    and d: "IsWithinTopScreen (framebuffer_layout (window_at stacked_layout)) 200 360 = None"
    by (simp_all add: window_at_def stacked_layout_def IsWithinTopScreen_def)
  from touch_scenario_centre [OF a b c d] a b c d show ?thesis
    by simp
qed

text \<open>
  Claim C4. For every layout with \<open>is_rotated = false\<close> and every pixel that
  \<open>TouchPressed\<close> accepts as a touch, the same call on the layout with \<open>is_rotated = true\<close>
  accepts it too, and the coordinates stored on the layout that is not rotated are
  \<open>touch_x = 1 - ny_raw\<close> and \<open>touch_y = nx_raw\<close>, where \<open>nx_raw\<close> and \<open>ny_raw\<close> are the
  coordinates stored on the rotated one.
\<close>

theorem unrotated_swap_and_mirror:
  assumes "\<not> is_rotated (framebuffer_layout w)"
      and "fst (TouchPressed r w x y) = Some True"
  shows "fst (TouchPressed r (with_rotated True w) x y) = Some True \<and>
         touch_x (touch_state (snd (TouchPressed r w x y))) =
           1 - touch_y (touch_state (snd (TouchPressed r (with_rotated True w) x y))) \<and>
         touch_y (touch_state (snd (TouchPressed r w x y))) =
           touch_x (touch_state (snd (TouchPressed r (with_rotated True w) x y)))"
  using assms
  by (auto simp add: TouchPressed_def IsWithinTopScreen_def IsWithinTouchscreen_def
        with_rotated_def Let_def split: if_splits option.splits)

theorem unrotated_swap_and_mirror_witness:
  "\<not> is_rotated (framebuffer_layout (with_rotated False (window_at stacked_layout))) \<and>
   fst (TouchPressed Off (with_rotated False (window_at stacked_layout)) 200 300) = Some True \<and>
   touch_state (snd (TouchPressed Off (window_at stacked_layout) 200 300)) =
     \<lparr>touch_pressed = True, touch_x = 1 / 2, touch_y = 1 / 4\<rparr> \<and>
   touch_x (touch_state
     (snd (TouchPressed Off (with_rotated False (window_at stacked_layout)) 200 300))) = 3 / 4 \<and>
   touch_y (touch_state
     (snd (TouchPressed Off (with_rotated False (window_at stacked_layout)) 200 300))) = 1 / 2"
proof -
  have a: "\<not> is_rotated (framebuffer_layout (with_rotated False (window_at stacked_layout)))"
    by (simp add: with_rotated_def)
  have b: "fst (TouchPressed Off (with_rotated False (window_at stacked_layout)) 200 300) =
             Some True"
    by (simp add: with_rotated_def touch_eval stacked_layout_def)
  have c: "with_rotated True (with_rotated False (window_at stacked_layout)) =
             window_at stacked_layout"
    by (simp add: with_rotated_def window_at_def stacked_layout_def)
  have d: "touch_state (snd (TouchPressed Off (window_at stacked_layout) 200 300)) =
             \<lparr>touch_pressed = True, touch_x = 1 / 2, touch_y = 1 / 4\<rparr>"
    by (simp add: touch_eval stacked_layout_def)
  from unrotated_swap_and_mirror [OF a b] a b d show ?thesis
    by (simp add: c)
qed

text \<open>
  Claim C7. Under side-by-side stereo, for every layout and every \<open>y\<close> inside the
  vertical extent of the bottom screen, \<open>IsWithinTouchscreen\<close> accepts exactly the pixels
  whose \<open>x\<close> lies in \<open>[left/2, right/2)\<close> or in \<open>[left/2 + width/2, right/2 + width/2)\<close>,
  the bounds being those integers and not their values modulo \<open>2^32\<close>, and it rejects
  every pixel of the gap \<open>[right/2, left/2 + width/2)\<close>. The claim's condition that the
  bottom screen is not wider than the framebuffer is not needed.
\<close>

theorem side_by_side_regions:
  assumes "top' (bottom_screen L) \<le> y" and "y < bottom (bottom_screen L)"
  shows "(IsWithinTouchscreen SideBySide L x y \<longleftrightarrow>
            (unat (left (bottom_screen L)) div 2 \<le> unat x \<and>
             unat x < unat (right (bottom_screen L)) div 2) \<or>
            (unat (left (bottom_screen L)) div 2 + unat (width L) div 2 \<le> unat x \<and>
             unat x < unat (right (bottom_screen L)) div 2 + unat (width L) div 2)) \<and>
         (unat (right (bottom_screen L)) div 2 \<le> unat x \<and>
          unat x < unat (left (bottom_screen L)) div 2 + unat (width L) div 2 \<longrightarrow>
            \<not> IsWithinTouchscreen SideBySide L x y)"
  using assms
  by (auto simp add: IsWithinTouchscreen_def word_le_nat_alt word_less_nat_alt
        unat_half_sum unat_half)

theorem side_by_side_regions_witness:
  "top' (bottom_screen stereo_layout) \<le> 300 \<and> 300 < bottom (bottom_screen stereo_layout) \<and>
   IsWithinTouchscreen SideBySide stereo_layout 200 300 \<and>
   IsWithinTouchscreen SideBySide stereo_layout 600 300 \<and>
   unat (right (bottom_screen stereo_layout)) div 2 \<le> unat (400 :: u32) \<and>
   unat (400 :: u32) < unat (left (bottom_screen stereo_layout)) div 2 +
                        unat (width stereo_layout) div 2 \<and>
   \<not> IsWithinTouchscreen SideBySide stereo_layout 400 300"
proof -
  have a: "top' (bottom_screen stereo_layout) \<le> 300"
    and b: "300 < bottom (bottom_screen stereo_layout)"
    by (simp_all add: stereo_layout_def)
  from side_by_side_regions [OF a b, of 200] side_by_side_regions [OF a b, of 600]
    side_by_side_regions [OF a b, of 400] a b
  show ?thesis
    by (simp add: stereo_layout_def)
qed


text \<open>
  Claim C6, as stated: under side-by-side stereo, for every layout and every pixel
  \<open>(x, y)\<close> accepted in the left-eye touch region and not inside the top screen, the
  right-eye pixel \<open>(x + width/2, y)\<close> is also accepted and \<open>TouchPressed\<close> stores the same
  coordinates for both. It fails in two ways. On \<open>side_layout_swapped\<close> the pixel
  \<open>(100, 100)\<close> is accepted, and its right-eye pixel \<open>(460, 100)\<close> lies on the top screen:
  the call grabs the camera and stores no touch. On \<open>wide_layout\<close>, whose bottom screen
  is wider than the framebuffer, the left-eye pixel \<open>(300, 100)\<close> is itself at or beyond
  \<open>width/2\<close>, so \<open>width/2\<close> is subtracted from it too, and the two calls store \<open>1/4\<close>
  and \<open>3/4\<close>.
\<close>

theorem right_eye_pixel_counterexample:
  "IsWithinTopScreen side_layout_swapped 100 100 = None \<and>
   IsWithinTouchscreen SideBySide side_layout_swapped 100 100 \<and>
   TouchPressed SideBySide (window_at side_layout_swapped) 100 100 =
     (Some True,
      (window_at side_layout_swapped)
        \<lparr>touch_state := \<lparr>touch_pressed = True, touch_x = 5 / 8, touch_y = 5 / 12\<rparr>\<rparr>) \<and>
   TouchPressed SideBySide (window_at side_layout_swapped)
       (100 + width side_layout_swapped div 2) 100 =
     (None,
      (window_at side_layout_swapped)
        \<lparr>camera_hack_state :=
           \<lparr>grabbed = True, lastX = 140, lastY = 100, tx = 140, ty = 100\<rparr>\<rparr>) \<and>
   IsWithinTopScreen wide_layout 300 100 = None \<and>
   IsWithinTouchscreen SideBySide wide_layout 300 100 \<and>
   TouchPressed SideBySide (window_at wide_layout) 300 100 =
     (Some True,
      (window_at wide_layout)
        \<lparr>touch_state := \<lparr>touch_pressed = True, touch_x = 1 / 4, touch_y = 5 / 12\<rparr>\<rparr>) \<and>
   TouchPressed SideBySide (window_at wide_layout) (300 + width wide_layout div 2) 100 =
     (Some True,
      (window_at wide_layout)
        \<lparr>touch_state := \<lparr>touch_pressed = True, touch_x = 3 / 4, touch_y = 5 / 12\<rparr>\<rparr>)"
  by (simp add: touch_eval side_layout_swapped_def wide_layout_def)

text \<open>
  Claim C6, amended. Under side-by-side stereo, for every layout and every pixel
  \<open>(x, y)\<close> in the left-eye touch region with \<open>x < width/2\<close>, such that neither \<open>(x, y)\<close>
  nor the right-eye pixel \<open>(x + width/2, y)\<close> is inside the top screen: \<open>TouchPressed\<close>
  accepts both pixels and has the same result for both, so it stores the same
  coordinates.
\<close>

theorem right_eye_pixel_same_touch:
  assumes top1: "IsWithinTopScreen (framebuffer_layout w) x y = None"
      and top2: "IsWithinTopScreen (framebuffer_layout w)
                   (x + width (framebuffer_layout w) div 2) y = None"
      and v: "top' (bottom_screen (framebuffer_layout w)) \<le> y"
             "y < bottom (bottom_screen (framebuffer_layout w))"
      and h: "left (bottom_screen (framebuffer_layout w)) div 2 \<le> x"
             "x < right (bottom_screen (framebuffer_layout w)) div 2"
      and half: "x < width (framebuffer_layout w) div 2"
  shows "fst (TouchPressed SideBySide w x y) = Some True \<and>
         TouchPressed SideBySide w (x + width (framebuffer_layout w) div 2) y =
           TouchPressed SideBySide w x y"
proof -
  let ?L = "framebuffer_layout w"
  let ?h = "width ?L div 2"
  have r: "unat (right (bottom_screen ?L)) < 2 ^ 32"
    using unsigned_less [of "right (bottom_screen ?L)"] by simp
  have "unat x < unat (right (bottom_screen ?L)) div 2"
    using h(2) by (simp add: word_less_nat_alt unat_half)
  with r have hx: "unat x < 2 ^ 31"
    by simp
  have wd: "unat (width ?L) < 2 ^ 32"
    using unsigned_less [of "width ?L"] by simp
  have hh: "unat ?h < 2 ^ 31"
    using wd by (simp add: unat_half)
  have sum: "unat (x + ?h) = unat x + unat ?h"
    using hx hh by (subst unat_add_lem [symmetric]) simp
  have ge: "?h \<le> x + ?h"
    by (simp add: word_le_nat_alt sum)
  have in1: "IsWithinTouchscreen SideBySide ?L x y"
    using v h by (simp add: IsWithinTouchscreen_def)
  have in2: "IsWithinTouchscreen SideBySide ?L (x + ?h) y"
    using v h
    by (simp add: IsWithinTouchscreen_def word_le_nat_alt word_less_nat_alt
          unat_half_sum unat_half sum)
  have nlt: "\<not> ?h \<le> x"
    using half by simp
  show ?thesis
    using top1 top2 in1 in2 ge nlt by (simp add: TouchPressed_def Let_def)
qed

theorem right_eye_pixel_same_touch_witness:
  "IsWithinTopScreen (framebuffer_layout (window_at stereo_layout)) 200 300 = None \<and>
   IsWithinTopScreen (framebuffer_layout (window_at stereo_layout))
     (200 + width (framebuffer_layout (window_at stereo_layout)) div 2) 300 = None \<and>
   IsWithinTouchscreen SideBySide stereo_layout 200 300 \<and>
   (200 :: u32) < width (framebuffer_layout (window_at stereo_layout)) div 2 \<and>
   TouchPressed SideBySide (window_at stereo_layout) 600 300 =
     TouchPressed SideBySide (window_at stereo_layout) 200 300 \<and>
   TouchPressed SideBySide (window_at stereo_layout) 200 300 =
     (Some True,
      (window_at stereo_layout)
        \<lparr>touch_state := \<lparr>touch_pressed = True, touch_x = 1 / 2, touch_y = 1 / 4\<rparr>\<rparr>)"
proof -
  have L: "framebuffer_layout (window_at stereo_layout) = stereo_layout"
    by (simp add: window_at_def)
  have top1: "IsWithinTopScreen (framebuffer_layout (window_at stereo_layout)) 200 300 = None"
    and top2: "IsWithinTopScreen (framebuffer_layout (window_at stereo_layout))
                 (200 + width (framebuffer_layout (window_at stereo_layout)) div 2) 300 = None"
    and v1: "top' (bottom_screen (framebuffer_layout (window_at stereo_layout))) \<le> 300"
    and v2: "300 < bottom (bottom_screen (framebuffer_layout (window_at stereo_layout)))"
    and h1: "left (bottom_screen (framebuffer_layout (window_at stereo_layout))) div 2 \<le> 200"
    and h2: "200 < right (bottom_screen (framebuffer_layout (window_at stereo_layout))) div 2"
    and half: "200 < width (framebuffer_layout (window_at stereo_layout)) div 2"
    unfolding L by (simp_all add: stereo_layout_def IsWithinTopScreen_def)
  have val: "TouchPressed SideBySide (window_at stereo_layout) 200 300 =
     (Some True,
      (window_at stereo_layout)
        \<lparr>touch_state := \<lparr>touch_pressed = True, touch_x = 1 / 2, touch_y = 1 / 4\<rparr>\<rparr>)"
    by (simp add: touch_eval stereo_layout_def)
  have w: "(200 :: u32) + width (framebuffer_layout (window_at stereo_layout)) div 2 = 600"
    unfolding L by (simp add: stereo_layout_def)
  have inside: "IsWithinTouchscreen SideBySide stereo_layout 200 300"
    by (simp add: IsWithinTouchscreen_def stereo_layout_def)
  from right_eye_pixel_same_touch [OF top1 top2 v1 v2 h1 h2 half] top1 top2 half val inside
  show ?thesis
    by (simp only: w)
qed


section \<open>Moves while the camera is grabbed\<close>

lemma TouchPressed_miss:
  "IsWithinTopScreen (framebuffer_layout w) x y = None \<Longrightarrow>
   camera_hack_state (snd (TouchPressed r w x y)) = camera_hack_state w"
  by (simp add: TouchPressed_def Let_def split: prod.splits)

lemma stacked_pressed_grabbed_eq:
  "stacked_pressed_grabbed =
     (window_at stacked_layout)
       \<lparr>touch_state := \<lparr>touch_pressed = True, touch_x = 1 / 2, touch_y = 1 / 2\<rparr>,
        camera_hack_state := \<lparr>grabbed = True, lastX = 100, lastY = 100, tx = 100, ty = 100\<rparr>\<rparr>"
  by (simp add: stacked_pressed_grabbed_def touch_eval stacked_layout_def)

text \<open>
  Claim C10, as stated: for every \<open>TouchMoved\<close> made while the camera is grabbed, if the
  new pixel lies outside the top screen then \<open>tx\<close> and \<open>ty\<close> keep their values. It fails
  when a touch is pressed as well and the pixel lies outside the touch region: the pixel
  is clipped into the touch region and handed to \<open>TouchPressed\<close>, which tests the top
  screen again, with the clipped pixel. On \<open>side_layout\<close> under side-by-side stereo, after
  a press at \<open>(600, 100)\<close> and a press at \<open>(100, 100)\<close>, the move to \<open>(700, 300)\<close> is
  clipped to \<open>(340, 239)\<close>, which is on the top screen.
\<close>

theorem move_outside_top_counterexample:
  "grabbed (camera_hack_state pressed_grabbed_window) \<and>
   IsWithinTopScreen (framebuffer_layout pressed_grabbed_window) 700 300 = None \<and>
   tx (camera_hack_state pressed_grabbed_window) = 100 \<and>
   ty (camera_hack_state pressed_grabbed_window) = 100 \<and>
   tx (camera_hack_state (TouchMoved SideBySide pressed_grabbed_window 700 300)) = 340 \<and>
   ty (camera_hack_state (TouchMoved SideBySide pressed_grabbed_window 700 300)) = 239"
  by (simp add: pressed_grabbed_window_eq)
     (simp add: TouchMoved_def ClipToTouchScreen_def touch_eval side_layout_def)

text \<open>
  Claim C10, amended. For every \<open>TouchMoved\<close> made while the camera is grabbed, if the new
  pixel lies outside the top screen and, in case a touch is pressed and the pixel lies
  outside the touch region, the pixel \<open>ClipToTouchScreen\<close> returns for it lies outside
  the top screen too, then \<open>tx\<close> and \<open>ty\<close> keep their values, and the mouse delta the next
  \<open>UpdateCameraHack\<close> derives from the grab coordinates is the one it would have derived
  before the move.
\<close>

theorem move_outside_top_keeps_grab_point:
  assumes "grabbed (camera_hack_state w)"
      and "IsWithinTopScreen (framebuffer_layout w) x y = None"
      and "touch_pressed (touch_state w) \<longrightarrow>
           \<not> IsWithinTouchscreen r (framebuffer_layout w) x y \<longrightarrow>
           IsWithinTopScreen (framebuffer_layout w)
             (fst (ClipToTouchScreen r (framebuffer_layout w) x y))
             (snd (ClipToTouchScreen r (framebuffer_layout w) x y)) = None"
  shows "tx (camera_hack_state (TouchMoved r w x y)) = tx (camera_hack_state w) \<and>
         ty (camera_hack_state (TouchMoved r w x y)) = ty (camera_hack_state w) \<and>
         mouse_delta (camera_hack_state (TouchMoved r w x y)) =
           mouse_delta (camera_hack_state w)"
proof -
  have "camera_hack_state (TouchMoved r w x y) = camera_hack_state w"
    using assms by (auto simp add: TouchMoved_def TouchPressed_miss split: prod.splits)
  then show ?thesis
    by simp
qed

theorem move_outside_top_keeps_grab_point_witness:
  "grabbed (camera_hack_state stacked_pressed_grabbed) \<and>
   IsWithinTopScreen (framebuffer_layout stacked_pressed_grabbed) 390 500 = None \<and>
   touch_pressed (touch_state stacked_pressed_grabbed) \<and>
   \<not> IsWithinTouchscreen Off (framebuffer_layout stacked_pressed_grabbed) 390 500 \<and>
   ClipToTouchScreen Off (framebuffer_layout stacked_pressed_grabbed) 390 500 = (359, 479) \<and>
   IsWithinTopScreen (framebuffer_layout stacked_pressed_grabbed) 359 479 = None \<and>
   tx (camera_hack_state (TouchMoved Off stacked_pressed_grabbed 390 500)) = 100 \<and>
   ty (camera_hack_state (TouchMoved Off stacked_pressed_grabbed 390 500)) = 100"
proof -
  have L: "framebuffer_layout stacked_pressed_grabbed = stacked_layout"
    by (simp add: stacked_pressed_grabbed_eq window_at_def)
  have g: "grabbed (camera_hack_state stacked_pressed_grabbed)"
    and p: "touch_pressed (touch_state stacked_pressed_grabbed)"
    and t: "tx (camera_hack_state stacked_pressed_grabbed) = 100"
           "ty (camera_hack_state stacked_pressed_grabbed) = 100"
    by (simp_all add: stacked_pressed_grabbed_eq)
  have out: "IsWithinTopScreen (framebuffer_layout stacked_pressed_grabbed) 390 500 = None"
    and off: "\<not> IsWithinTouchscreen Off (framebuffer_layout stacked_pressed_grabbed) 390 500"
    and clip: "ClipToTouchScreen Off (framebuffer_layout stacked_pressed_grabbed) 390 500 =
                 (359, 479)"
    and out': "IsWithinTopScreen (framebuffer_layout stacked_pressed_grabbed) 359 479 = None"
    unfolding L
    by (simp_all add: IsWithinTopScreen_def IsWithinTouchscreen_def ClipToTouchScreen_def
          stacked_layout_def)
  have c: "touch_pressed (touch_state stacked_pressed_grabbed) \<longrightarrow>
           \<not> IsWithinTouchscreen Off (framebuffer_layout stacked_pressed_grabbed) 390 500 \<longrightarrow>
           IsWithinTopScreen (framebuffer_layout stacked_pressed_grabbed)
             (fst (ClipToTouchScreen Off (framebuffer_layout stacked_pressed_grabbed) 390 500))
             (snd (ClipToTouchScreen Off (framebuffer_layout stacked_pressed_grabbed) 390 500)) =
           None"
    by (simp add: clip out')
  from move_outside_top_keeps_grab_point [OF g out c] g p t out off clip out'
  show ?thesis
    by simp
qed


section \<open>The velocity integrator\<close>



lemma list3: "length (v :: 'a list) = 3 \<Longrightarrow> v = [v ! 0, v ! 1, v ! 2]"
  apply (rule nth_equalityI)
   apply simp
  apply (simp add: numeral_eq_Suc less_Suc_eq)
  apply (elim disjE)
    apply simp_all
  done

lemma axis_block:
  assumes "j < length km"
  shows "(if n then km[j := clampRange (km ! j - keyMoveSpeedCap sh * keyMoveVelocityMult)
                              (keyMoveSpeedCap sh)]
          else if p then km[j := clampRange (km ! j + keyMoveSpeedCap sh * keyMoveVelocityMult)
                                   (keyMoveSpeedCap sh)]
          else (let km' = km[j := km ! j * keyMoveDrag]
                in if \<bar>km' ! j\<bar> < keyMoveLowSpeedCap then km'[j := 0] else km')) =
         km[j := axis_step n p sh (km ! j)]"
  using assms by (simp add: axis_step_def Let_def)

lemma move_keys_blocks:
  assumes len: "length km = 3"
  shows "move_keys i km =
    (let k2 = km[2 := axis_step (keyW i) (keyS i) (isShiftPressed i) (km ! 2)];
         k0 = k2[0 := axis_step (keyA i) (keyD i) (isShiftPressed i) (k2 ! 0)];
         k1 = k0[1 := axis_step (keyQ i) (keyE i) (isShiftPressed i) (k0 ! 1)]
     in k1)"
proof -
  have 2: "2 < length km" using len by simp
  let ?k2 = "km[2 := axis_step (keyW i) (keyS i) (isShiftPressed i) (km ! 2)]"
  have 0: "0 < length ?k2" using len by simp
  let ?k0 = "?k2[0 := axis_step (keyA i) (keyD i) (isShiftPressed i) (?k2 ! 0)]"
  have 1: "1 < length ?k0" using len by simp
  show ?thesis
    unfolding move_keys_def
    apply (subst Let_def)
    apply (subst Let_def)
    apply (subst axis_block [OF 2])
    apply (subst Let_def)
    apply (subst axis_block [OF 0])
    apply (subst Let_def)
    apply (subst axis_block [OF 1])
    apply (simp add: Let_def)
    done
qed

lemma move_keys_nth:
  assumes k: "k < 3" and len: "length km = 3"
  shows "move_keys i km ! k = axis_step (neg_key k i) (pos_key k i) (isShiftPressed i) (km ! k)"
proof -
  from k consider "k = 0" | "k = 1" | "k = 2" by linarith
  then show ?thesis
    using len
    by cases (simp_all add: move_keys_blocks [OF len] neg_key_def pos_key_def Let_def)
qed


lemma length_move_keys: "length (move_keys i km) = length km"
  by (simp add: move_keys_def Let_def)

lemma keyMovement_tick:
  "keyMovement (fps_camera_controller (fst (UpdateCameraHack i w))) =
     move_keys i (keyMovement (fps_camera_controller w))"
  by (simp add: UpdateCameraHack_def Let_def split: prod.splits)

lemma cap_cases: "keyMoveSpeedCap sh = 10 \<or> keyMoveSpeedCap sh = 50"
  by (simp add: keyMoveSpeedCap_def keyMoveSpeed_def keyMoveShiftMult_def)

lemma cap_pos: "0 < keyMoveSpeedCap sh"
  using cap_cases [of sh] by auto

lemma clamp_ramp_neg:
  fixes c s x :: real
  assumes "0 < c" "0 \<le> s" "0 \<le> x"
  shows "min (max (- min x c - s) (- c)) c = - min (x + s) c"
  using assms by (auto simp add: min_def max_def)

lemma clamp_ramp_pos:
  fixes c s x :: real
  assumes "0 < c" "0 \<le> s" "0 \<le> x"
  shows "min (max (min x c + s) (- c)) c = min (x + s) c"
  using assms by (auto simp add: min_def max_def)

lemma Suc_step: "real (Suc m) * (s :: real) = real m * s + s"
  by (simp add: algebra_simps)

lemma axis_step_neg: "axis_step True p sh (- ramp sh m) = - ramp sh (Suc m)"
proof -
  have c: "0 < keyMoveSpeedCap sh" by (rule cap_pos)
  then have s: "0 \<le> keyMoveSpeedCap sh / 5" by simp
  then have x: "0 \<le> real m * (keyMoveSpeedCap sh / 5)" by simp
  show ?thesis
    unfolding ramp_def Suc_step
    using clamp_ramp_neg [OF c s x]
    by (simp add: axis_step_def Let_def clampRange_def clamp_def keyMoveVelocityMult_def)
qed

lemma axis_step_pos: "axis_step False True sh (ramp sh m) = ramp sh (Suc m)"
proof -
  have c: "0 < keyMoveSpeedCap sh" by (rule cap_pos)
  then have s: "0 \<le> keyMoveSpeedCap sh / 5" by simp
  then have x: "0 \<le> real m * (keyMoveSpeedCap sh / 5)" by simp
  show ?thesis
    unfolding ramp_def Suc_step
    using clamp_ramp_pos [OF c s x]
    by (simp add: axis_step_def Let_def clampRange_def clamp_def keyMoveVelocityMult_def)
qed

lemma axis_step_decay:
  "axis_step False False sh v = (if \<bar>v * (8 / 10)\<bar> < 1 / 100 then 0 else v * (8 / 10))"
  by (simp add: axis_step_def Let_def keyMoveDrag_def keyMoveLowSpeedCap_def)

lemma ticks_hold:
  assumes k: "k < 3"
  shows "length (keyMovement (fps_camera_controller w)) = 3 \<Longrightarrow>
         keyMovement (fps_camera_controller w) ! k = (if dn then - 1 else 1) * ramp sh m \<Longrightarrow>
         \<forall>i \<in> set ins. isShiftPressed i = sh \<and> neg_key k i = dn \<and> pos_key k i = (\<not> dn) \<Longrightarrow>
         keyMovement (fps_camera_controller (ticks ins w)) ! k =
           (if dn then - 1 else 1) * ramp sh (m + length ins)"
proof (induction ins arbitrary: w m)
  case Nil
  then show ?case by simp
next
  case (Cons i ins)
  let ?w = "fst (UpdateCameraHack i w)"
  have len: "length (keyMovement (fps_camera_controller ?w)) = 3"
    using Cons.prems(1) by (simp add: keyMovement_tick length_move_keys)
  have i: "isShiftPressed i = sh" "neg_key k i = dn" "pos_key k i = (\<not> dn)"
    using Cons.prems(3) by simp_all
  have step: "keyMovement (fps_camera_controller ?w) ! k = (if dn then - 1 else 1) * ramp sh (Suc m)"
    using Cons.prems(2) axis_step_neg [of "\<not> dn" sh m] axis_step_pos [of sh m]
    by (cases dn) (simp_all add: keyMovement_tick move_keys_nth [OF k Cons.prems(1)] i)
  have "keyMovement (fps_camera_controller (ticks ins ?w)) ! k =
          (if dn then - 1 else 1) * ramp sh (Suc m + length ins)"
    using Cons.prems(3) by (intro Cons.IH [OF len step]) simp
  then show ?case by simp
qed

lemma ramp_0: "ramp sh 0 = 0"
  using cap_pos [of sh] by (simp add: ramp_def)

lemma ramp_step: "ramp sh (Suc n) = min (ramp sh n + keyMoveSpeedCap sh / 5) (keyMoveSpeedCap sh)"
  using cap_cases [of sh] by (auto simp add: ramp_def min_def)

lemma ramp_bounds: "0 \<le> ramp sh n" "ramp sh n \<le> keyMoveSpeedCap sh" "ramp sh n \<le> ramp sh (Suc n)"
  using cap_cases [of sh] by (auto simp add: ramp_def min_def)

lemma ramp_full: "5 \<le> n \<Longrightarrow> ramp sh n = keyMoveSpeedCap sh"
  using cap_cases [of sh] unfolding ramp_def by (auto simp add: min_def)

text \<open>
  Claim C3. For each movement axis \<open>k\<close>, with the boost modifier held constant at \<open>sh\<close>
  and the cap \<open>keyMoveSpeedCap sh\<close>: starting from velocity 0, while one of the two
  buttons of the axis is held and the other is not, after \<open>n\<close> ticks the velocity is the
  smaller of \<open>n * cap / 5\<close> and \<open>cap\<close>, with the sign of the button; each further tick
  takes the magnitude \<open>m\<close> to the smaller of \<open>m + cap / 5\<close> and \<open>cap\<close>, so the magnitude
  never falls, never exceeds the cap, and is exactly the cap from the fifth tick on. And
  from any velocity \<open>v\<close>, a tick with neither button of the axis held takes it to \<open>0.8 v\<close>,
  or to exactly 0 when the magnitude of \<open>0.8 v\<close> is below \<open>0.01\<close>.
\<close>

theorem velocity_integrator:
  assumes k: "k < 3" and len: "length (keyMovement (fps_camera_controller w)) = 3"
  shows "(keyMovement (fps_camera_controller w) ! k = 0 \<and>
          (\<forall>i \<in> set (ins @ [j]).
             isShiftPressed i = sh \<and> neg_key k i = dn \<and> pos_key k i = (\<not> dn)) \<longrightarrow>
          (let v = keyMovement (fps_camera_controller (ticks ins w)) ! k;
               v' = keyMovement (fps_camera_controller (ticks (ins @ [j]) w)) ! k;
               cap = keyMoveSpeedCap sh
           in v = (if dn then - 1 else 1) * min (real (length ins) * (cap / 5)) cap \<and>
              \<bar>v'\<bar> = min (\<bar>v\<bar> + cap / 5) cap \<and>
              \<bar>v\<bar> \<le> \<bar>v'\<bar> \<and> \<bar>v'\<bar> \<le> cap \<and>
              (5 \<le> length ins \<longrightarrow> \<bar>v\<bar> = cap))) \<and>
         (\<not> neg_key k i \<and> \<not> pos_key k i \<longrightarrow>
          keyMovement (fps_camera_controller (fst (UpdateCameraHack i w))) ! k =
            (if \<bar>keyMovement (fps_camera_controller w) ! k * (8 / 10)\<bar> < 1 / 100 then 0
             else keyMovement (fps_camera_controller w) ! k * (8 / 10)))"
proof (intro conjI impI)
  assume a: "keyMovement (fps_camera_controller w) ! k = 0 \<and>
          (\<forall>i \<in> set (ins @ [j]).
             isShiftPressed i = sh \<and> neg_key k i = dn \<and> pos_key k i = (\<not> dn))"
  let ?s = "if dn then - 1 else 1 :: real"
  have start: "keyMovement (fps_camera_controller w) ! k = ?s * ramp sh 0"
    using a by (simp add: ramp_0)
  have held: "\<forall>i \<in> set ins. isShiftPressed i = sh \<and> neg_key k i = dn \<and> pos_key k i = (\<not> dn)"
    using a by simp
  have v: "keyMovement (fps_camera_controller (ticks ins w)) ! k = ?s * ramp sh (length ins)"
    using ticks_hold [OF k len start held] by simp
  have v': "keyMovement (fps_camera_controller (ticks (ins @ [j]) w)) ! k =
              ?s * ramp sh (Suc (length ins))"
    using ticks_hold [OF k len start, of "ins @ [j]"] a by simp
  have abs: "\<bar>?s * ramp sh n\<bar> = ramp sh n" for n
    using ramp_bounds(1) [of sh n] by simp
  show "let v = keyMovement (fps_camera_controller (ticks ins w)) ! k;
            v' = keyMovement (fps_camera_controller (ticks (ins @ [j]) w)) ! k;
            cap = keyMoveSpeedCap sh
        in v = (if dn then - 1 else 1) * min (real (length ins) * (cap / 5)) cap \<and>
           \<bar>v'\<bar> = min (\<bar>v\<bar> + cap / 5) cap \<and>
           \<bar>v\<bar> \<le> \<bar>v'\<bar> \<and> \<bar>v'\<bar> \<le> cap \<and>
           (5 \<le> length ins \<longrightarrow> \<bar>v\<bar> = cap)"
    unfolding Let_def v v' abs
    using ramp_step [of sh "length ins"] ramp_bounds [of sh] ramp_full [of "length ins" sh]
    by (simp add: ramp_def)
next
  assume "\<not> neg_key k i \<and> \<not> pos_key k i"
  then show "keyMovement (fps_camera_controller (fst (UpdateCameraHack i w))) ! k =
            (if \<bar>keyMovement (fps_camera_controller w) ! k * (8 / 10)\<bar> < 1 / 100 then 0
             else keyMovement (fps_camera_controller w) ! k * (8 / 10))"
    by (simp add: keyMovement_tick move_keys_nth [OF k len] axis_step_decay)
qed


theorem velocity_integrator_witness:
  "(2 :: nat) < 3 \<and>
   length (keyMovement (fps_camera_controller (window_at stacked_layout))) = 3 \<and>
   keyMovement (fps_camera_controller (window_at stacked_layout)) ! 2 = 0 \<and>
   keyMovement (fps_camera_controller
     (ticks [hold_W_boost, hold_W_boost, hold_W_boost, hold_W_boost, hold_W_boost]
        (window_at stacked_layout))) ! 2 = - 50 \<and>
   \<bar>keyMovement (fps_camera_controller
     (ticks ([hold_W_boost, hold_W_boost, hold_W_boost, hold_W_boost, hold_W_boost] @
             [hold_W_boost])
        (window_at stacked_layout))) ! 2\<bar> = 50 \<and>
   length (keyMovement (fps_camera_controller drifting_window)) = 3 \<and>
   \<not> neg_key 2 idle_input \<and> \<not> pos_key 2 idle_input \<and>
   keyMovement (fps_camera_controller (fst (UpdateCameraHack idle_input drifting_window))) ! 2 =
     8 / 10"
proof -
  have k: "(2 :: nat) < 3"
    by simp
  have len: "length (keyMovement (fps_camera_controller (window_at stacked_layout))) = 3"
    and zero: "keyMovement (fps_camera_controller (window_at stacked_layout)) ! 2 = 0"
    by (simp_all add: window_at_def)
  have held: "isShiftPressed hold_W_boost = True" "neg_key 2 hold_W_boost = True"
    "pos_key 2 hold_W_boost = (\<not> True)"
    by (simp_all add: hold_W_boost_def idle_input_def neg_key_def pos_key_def)
  have cap: "keyMoveSpeedCap True = 50"
    by (simp add: keyMoveSpeedCap_def keyMoveSpeed_def keyMoveShiftMult_def)
  have len': "length (keyMovement (fps_camera_controller drifting_window)) = 3"
    and one: "keyMovement (fps_camera_controller drifting_window) ! 2 = 1"
    by (simp_all add: drifting_window_def)
  have idle: "\<not> neg_key 2 idle_input" "\<not> pos_key 2 idle_input"
    by (simp_all add: idle_input_def neg_key_def pos_key_def)
  from velocity_integrator [OF k len,
      of "[hold_W_boost, hold_W_boost, hold_W_boost, hold_W_boost, hold_W_boost]"
         hold_W_boost True True]
    velocity_integrator [OF k len', of "[]" idle_input False False idle_input]
    k len zero len' idle
  show ?thesis
    by (simp add: held cap one Let_def)
qed

section \<open>A tick of the camera\<close>

lemmas key_consts = keyMoveSpeedCap_def keyMoveSpeed_def keyMoveShiftMult_def
  keyMoveVelocityMult_def keyMoveDrag_def keyMoveLowSpeedCap_def clampRange_def clamp_def

lemma move_keys_idle: "move_keys idle_input [0, 0, 0] = [0, 0, 0]"
  by (simp add: move_keys_def idle_input_def key_consts)

lemma move_keys_hold_E: "move_keys hold_E [0, 0, 0] = [0, 2, 0]"
  by (simp add: move_keys_def hold_E_def idle_input_def key_consts)

lemma look_world_still:
  "after_mouseMovement i = 0 \<Longrightarrow> look_world i (0, 0) u wm [0, 0] = (wm, [0, 0])"
  by (simp add: look_world_def isZero_def mouseLookDrag_def mouseMoveLowSpeedCap_def)

lemma input_fields:
  "keyB idle_input = False" "after_mouseMovement idle_input = 0"
  "view_matrix_declared idle_input = [9, 9, 9, 9, 9, 9, 9, 9, 9, 9, 9, 9, 9, 9, 9, 9]"
  "keyB hold_E = False" "after_mouseMovement hold_E = 0"
  by (simp_all add: hold_E_def idle_input_def)

lemma window_fields:
  "camera_hack_state (window_with_matrix m) =
     \<lparr>grabbed = False, lastX = 0, lastY = 0, tx = 0, ty = 0\<rparr>"
  "fps_camera_controller (window_with_matrix m) =
     \<lparr>worldMatrix = m, keyMovement = [0, 0, 0], mouseMovement = [0, 0]\<rparr>"
  "fog_disabled (window_with_matrix m) = False"
  by (simp_all add: window_with_matrix_def window_at_def)

lemma tick_idle:
  "UpdateCameraHack idle_input (window_with_matrix m) =
    (window_with_matrix m,
     [\<lparr>view_matrix =
         (case mat4_inverse m of None \<Rightarrow> view_matrix_declared idle_input | Some v \<Rightarrow> v),
       disable_fog = False\<rparr>])"
  unfolding UpdateCameraHack_def
  apply (simp only: Let_def window_fields input_fields mouse_delta_def)
  apply (simp add: move_keys_idle look_world_still input_fields move_world_def isZero_def)
  apply (simp add: window_with_matrix_def window_at_def)
  done

text \<open>Every tick calls \<^verbatim>\<open>SetRenderHacks\<close> once, whatever the inverse returned; and the
  translation, when there is one, is by \<open>keyMovement\<close>.\<close>

lemma UpdateCameraHack_publishes_once: "length (snd (UpdateCameraHack i w)) = 1"
  by (simp add: UpdateCameraHack_def Let_def split: prod.splits)

lemma move_world_eq:
  "move_world u wm km = (if isZero km then wm else mat4_translate True wm km)"
  by (simp add: move_world_def Let_def)

lemma move_world_quarter_turn:
  "move_world u quarter_turn [0, 2, 0] = [0, 1, 0, 0, - 1, 0, 0, 0, 0, 0, 1, 0, - 2, 0, 0, 1]"
  by (simp add: move_world_def isZero_def mat4_translate_def quarter_turn_def)

lemma tick_hold_E:
  "fps_camera_controller (fst (UpdateCameraHack hold_E (window_with_matrix quarter_turn))) =
     \<lparr>worldMatrix = [0, 1, 0, 0, - 1, 0, 0, 0, 0, 0, 1, 0, - 2, 0, 0, 1],
      keyMovement = [0, 2, 0], mouseMovement = [0, 0]\<rparr>"
  unfolding UpdateCameraHack_def
  apply (simp only: Let_def window_fields input_fields mouse_delta_def)
  apply (simp add: move_keys_hold_E look_world_still input_fields move_world_quarter_turn)
  done

text \<open>
  Claim C1, as stated: for every state whose world matrix has determinant zero, a call of
  \<open>UpdateCameraHack\<close> does not publish a camera update. It fails: no result of a matrix
  operation is tested anywhere in \<open>UpdateCameraHack\<close>, and \<^verbatim>\<open>SetRenderHacks\<close> is called
  on every tick. At the world matrix of zeros, with nothing held, the inverse fails and
  the renderer is handed the view matrix as its declaration left it.
\<close>

theorem singular_matrix_is_published:
  "determinant (worldMatrix (fps_camera_controller (window_with_matrix zero_matrix))) = 0 \<and>
   fst (UpdateCameraHack idle_input (window_with_matrix zero_matrix)) =
     window_with_matrix zero_matrix \<and>
   mat4_inverse zero_matrix = None \<and>
   snd (UpdateCameraHack idle_input (window_with_matrix zero_matrix)) =
     [\<lparr>view_matrix = [9, 9, 9, 9, 9, 9, 9, 9, 9, 9, 9, 9, 9, 9, 9, 9], disable_fog = False\<rparr>]"
proof -
  have inv: "mat4_inverse zero_matrix = None"
    by (simp add: mat4_inverse_def zero_matrix_def)
  have det: "determinant zero_matrix = 0"
    by (simp add: determinant_def det3_def zero_matrix_def)
  show ?thesis
    by (simp add: tick_idle inv det window_fields input_fields)
qed

lemma mat4_inverse_None_iff: "mat4_inverse m = None \<longleftrightarrow> determinant m = 0"
  by (simp add: mat4_inverse_adjugate det_code_determinant)

text \<open>
  Claim C1, amended. Every call of \<open>UpdateCameraHack\<close> publishes exactly one render-hacks
  struct, with \<open>disable_fog\<close> set from \<open>fog_disabled\<close>. When the determinant of the world
  matrix the tick has arrived at is not zero, the inversion succeeds and the published
  view matrix is that inverse; when it is zero, the inversion fails and the published
  view matrix is what the declaration of the struct left there.
\<close>

theorem camera_update_always_published:
  "snd (UpdateCameraHack i w) =
     [\<lparr>view_matrix =
         (case mat4_inverse (worldMatrix (fps_camera_controller (fst (UpdateCameraHack i w)))) of
            None \<Rightarrow> view_matrix_declared i | Some v \<Rightarrow> v),
       disable_fog = fog_disabled w\<rparr>] \<and>
   (determinant (worldMatrix (fps_camera_controller (fst (UpdateCameraHack i w)))) \<noteq> 0 \<longrightarrow>
      (\<exists>v. mat4_inverse (worldMatrix (fps_camera_controller (fst (UpdateCameraHack i w)))) =
             Some v \<and>
           view_matrix (hd (snd (UpdateCameraHack i w))) = v)) \<and>
   (determinant (worldMatrix (fps_camera_controller (fst (UpdateCameraHack i w)))) = 0 \<longrightarrow>
      mat4_inverse (worldMatrix (fps_camera_controller (fst (UpdateCameraHack i w)))) = None \<and>
      view_matrix (hd (snd (UpdateCameraHack i w))) = view_matrix_declared i)"
proof -
  let ?wm = "worldMatrix (fps_camera_controller (fst (UpdateCameraHack i w)))"
  have pub: "snd (UpdateCameraHack i w) =
     [\<lparr>view_matrix = (case mat4_inverse ?wm of None \<Rightarrow> view_matrix_declared i | Some v \<Rightarrow> v),
       disable_fog = fog_disabled w\<rparr>]"
    by (simp add: UpdateCameraHack_def Let_def split: prod.splits)
  have some: "determinant ?wm \<noteq> 0 \<Longrightarrow> \<exists>v. mat4_inverse ?wm = Some v"
    using mat4_inverse_None_iff [of ?wm] by auto
  have none: "determinant ?wm = 0 \<Longrightarrow> mat4_inverse ?wm = None"
    by (simp add: mat4_inverse_None_iff)
  show ?thesis
    using some none by (auto simp add: pub)
qed

theorem camera_update_always_published_witness:
  "determinant (worldMatrix (fps_camera_controller
      (fst (UpdateCameraHack idle_input (window_with_matrix sample_matrix))))) \<noteq> 0 \<and>
   mat4_inverse sample_matrix =
     Some (view_matrix (hd (snd (UpdateCameraHack idle_input (window_with_matrix sample_matrix))))) \<and>
   determinant (worldMatrix (fps_camera_controller
      (fst (UpdateCameraHack idle_input (window_with_matrix zero_matrix))))) = 0 \<and>
   view_matrix (hd (snd (UpdateCameraHack idle_input (window_with_matrix zero_matrix)))) =
     view_matrix_declared idle_input"
proof -
  have s: "worldMatrix (fps_camera_controller
      (fst (UpdateCameraHack idle_input (window_with_matrix sample_matrix)))) = sample_matrix"
    and z: "worldMatrix (fps_camera_controller
      (fst (UpdateCameraHack idle_input (window_with_matrix zero_matrix)))) = zero_matrix"
    by (simp_all add: tick_idle window_fields)
  have ds: "determinant sample_matrix \<noteq> 0"
    by (simp add: sample_matrix_def determinant_def det3_def)
  have dz: "determinant zero_matrix = 0"
    by (simp add: zero_matrix_def determinant_def det3_def)
  have A: "determinant sample_matrix \<noteq> 0 \<longrightarrow>
      (\<exists>v. mat4_inverse sample_matrix = Some v \<and>
           view_matrix (hd (snd (UpdateCameraHack idle_input
             (window_with_matrix sample_matrix)))) = v)"
    using conjunct1 [OF conjunct2
      [OF camera_update_always_published [of idle_input "window_with_matrix sample_matrix"]]]
    by (simp only: s)
  have B: "determinant zero_matrix = 0 \<longrightarrow>
      mat4_inverse zero_matrix = None \<and>
      view_matrix (hd (snd (UpdateCameraHack idle_input (window_with_matrix zero_matrix)))) =
        view_matrix_declared idle_input"
    using conjunct2 [OF conjunct2
      [OF camera_update_always_published [of idle_input "window_with_matrix zero_matrix"]]]
    by (simp only: z)
  from A ds have a: "mat4_inverse sample_matrix =
     Some (view_matrix (hd (snd (UpdateCameraHack idle_input
       (window_with_matrix sample_matrix)))))"
    by blast
  from B dz have b: "view_matrix (hd (snd (UpdateCameraHack idle_input
       (window_with_matrix zero_matrix)))) = view_matrix_declared idle_input"
    by blast
  show ?thesis
    unfolding s z using ds dz a b by (intro conjI)
qed

text \<open>
  Claim C2 says that a tick with a velocity translates the world matrix by the vector
  whose vertical component is projected on the up axis read from the world matrix. The
  code computes that vector and then hands \<open>keyMovement\<close> itself to \<open>mat4_translate\<close>.
  On the world matrix turned a quarter about z, whose up axis is \<open>(1, 0, 0)\<close>, a tick with
  E held gives the velocity \<open>(0, 2, 0)\<close>; the projected vector is \<open>(2, 0, 0)\<close> and would
  move the translation part to \<open>(0, 2, 0)\<close>; the code moves it to \<open>(- 2, 0, 0)\<close>.
\<close>

theorem translation_ignores_projection:
  "keyMovement (fps_camera_controller
      (fst (UpdateCameraHack hold_E (window_with_matrix quarter_turn)))) = [0, 2, 0] \<and>
   projected_movement quarter_turn [0, 2, 0] = [2, 0, 0] \<and>
   mat4_translate True quarter_turn (projected_movement quarter_turn [0, 2, 0]) =
     [0, 1, 0, 0, - 1, 0, 0, 0, 0, 0, 1, 0, 0, 2, 0, 1] \<and>
   worldMatrix (fps_camera_controller
      (fst (UpdateCameraHack hold_E (window_with_matrix quarter_turn)))) =
     [0, 1, 0, 0, - 1, 0, 0, 0, 0, 0, 1, 0, - 2, 0, 0, 1]"
proof -
  have p: "projected_movement quarter_turn [0, 2, 0] = [2, 0, 0]"
    by (simp add: projected_movement_def quarter_turn_def)
  have t: "mat4_translate True quarter_turn [2, 0, 0] =
             [0, 1, 0, 0, - 1, 0, 0, 0, 0, 0, 1, 0, 0, 2, 0, 1]"
    by (simp add: mat4_translate_def quarter_turn_def)
  show ?thesis
    by (simp add: tick_hold_E p t)
qed

end
